theory Spec2Isabelle
  imports Main
begin

section \<open>Constants of app.py\<close>

definition START_LIFE :: int where
  "START_LIFE = 8"

definition HINT_LETTER_MAX :: int where
  "HINT_LETTER_MAX = 2"

definition HINT_LETTER_COST :: int where
  "HINT_LETTER_COST = 2"

section \<open>Python strings\<close>

text \<open>
  A Python \<open>str\<close> is a sequence of Unicode code points: here a list of natural
  numbers. \<open>ascii\<close> writes such a string from its ASCII spelling, so that
  \<open>ascii ''cat''\<close> is the string of the code points 99, 97, 116.

  The three \<open>str\<close> methods the program calls, \<open>strip()\<close>, \<open>lower()\<close> and
  \<open>isalpha()\<close>, are computed by the Python runtime from the Unicode character
  database, which is no part of the repository. They are parameters of the model (the
  fields \<open>strip\<close>, \<open>lower\<close> and \<open>isalpha\<close> of the surroundings \<open>env\<close> below), and
  nothing is assumed about them: every theorem holds whatever these three functions
  are, so in particular for the functions of the runtime.
\<close>

type_synonym ustr = "nat list"

definition ascii :: "string \<Rightarrow> ustr" where
  "ascii s = map of_char s"

text \<open>\<open>sep.join(parts)\<close>.\<close>

fun join :: "ustr \<Rightarrow> ustr list \<Rightarrow> ustr" where
  "join sep [] = []"
| "join sep [p] = p"
| "join sep (p # q # ps) = p @ sep @ join sep (q # ps)"

text \<open>
  \<open>sorted(list(s))\<close> for a set \<open>s\<close> of one-character strings that was built from a
  list: the distinct elements in code point order.
\<close>

definition sorted_list :: "nat list \<Rightarrow> nat list" where
  "sorted_list xs = sort (remdups xs)"

section \<open>Game state helpers\<close>

text \<open>
  \<open>mask_word(word, guessed)\<close>, line 111:
  \<open>" ".join(c if c in guessed else "_" for c in word)\<close>.
\<close>

definition mask_cell :: "nat set \<Rightarrow> nat \<Rightarrow> ustr" where
  "mask_cell guessed c = (if c \<in> guessed then [c] else ascii ''_'')"

definition mask_word :: "ustr \<Rightarrow> nat set \<Rightarrow> ustr" where
  "mask_word word guessed = join (ascii '' '') (map (mask_cell guessed) word)"

section \<open>The outside world\<close>

text \<open>
  A call that leaves the process (the \<open>translate\<close> library, the MyMemory and Wikipedia
  HTTP requests with their JSON decoding) either raises or returns a value.
\<close>

datatype 'a outcome = Raised | Returned 'a

text \<open>
  The fields of the Wikipedia reply as they are read at lines 98 to 100, before
  \<open>.strip()\<close>: \<open>thumbnail.source\<close>, \<open>description\<close> and \<open>extract\<close>, each \<open>or ""\<close>.
\<close>

record wiki_info =
  info_img :: ustr
  info_desc_en :: ustr
  info_extract_en :: ustr

text \<open>
  What one request sees of its surroundings. \<open>strip\<close>, \<open>lower\<close> and \<open>isalpha\<close> are
  the three \<open>str\<close> methods of the runtime: \<open>strip e s\<close> stands for \<open>s.strip()\<close>, and
  \<open>isalpha e [c]\<close> for \<open>c.isalpha()\<close> on the one-character string \<open>c\<close>. \<open>ANIMALS\<close> is
  the word list loaded from animals.txt and \<open>HAS_TRANSLATE_LIB\<close> the import flag of
  line 33. The three services are functions of the text they are asked about; they
  are arguments of every handler, so that two requests may meet different answers
  for the same text. \<open>rand_word\<close> and \<open>rand_reveal\<close> are the two draws of
  \<open>random.choice\<close> a request can make.
\<close>

record env =
  strip :: "ustr \<Rightarrow> ustr"
  lower :: "ustr \<Rightarrow> ustr"
  isalpha :: "ustr \<Rightarrow> bool"
  ANIMALS :: "ustr list"
  HAS_TRANSLATE_LIB :: bool
  lib_translate :: "ustr \<Rightarrow> ustr outcome"
  mymemory_translate :: "ustr \<Rightarrow> ustr outcome"
  wiki_fetch :: "ustr \<Rightarrow> wiki_info outcome"
  rand_word :: nat
  rand_reveal :: nat

datatype error = AttributeError | IndexError

section \<open>Translation with its cache\<close>

text \<open>
  \<open>translate_to_th(text)\<close>, lines 39 to 71, with \<open>TRANSLATE_CACHE\<close> passed in and
  returned. The library path returns its result even when that is empty; only an
  exception falls through to MyMemory.
\<close>

definition mymemory_path :: "env \<Rightarrow> (ustr \<rightharpoonup> ustr) \<Rightarrow> ustr \<Rightarrow> ustr \<Rightarrow>
    ustr \<times> (ustr \<rightharpoonup> ustr)" where
  "mymemory_path e cache text key =
     (case mymemory_translate e text of
        Returned r \<Rightarrow>
          (let th = strip e r in (th, if th \<noteq> [] then cache(key \<mapsto> th) else cache))
      | Raised \<Rightarrow> ([], cache))"

definition translate_to_th :: "env \<Rightarrow> (ustr \<rightharpoonup> ustr) \<Rightarrow> ustr \<Rightarrow>
    ustr \<times> (ustr \<rightharpoonup> ustr)" where
  "translate_to_th e cache text0 =
     (let text = strip e text0 in
      if text = [] then ([], cache)
      else let key = lower e text in
        case cache key of
          Some v \<Rightarrow> (v, cache)
        | None \<Rightarrow>
            if HAS_TRANSLATE_LIB e then
              (case lib_translate e text of
                 Returned r \<Rightarrow>
                   (let th = strip e r in (th, if th \<noteq> [] then cache(key \<mapsto> th) else cache))
               | Raised \<Rightarrow> mymemory_path e cache text key)
            else mymemory_path e cache text key)"

section \<open>Wikipedia summary with its cache\<close>

definition empty_info :: wiki_info where
  "empty_info = \<lparr>info_img = [], info_desc_en = [], info_extract_en = []\<rparr>"

text \<open>\<open>wikipedia_summary(word)\<close>, lines 76 to 108, with \<open>WIKI_CACHE\<close> passed in and returned.\<close>

definition wikipedia_summary :: "env \<Rightarrow> (ustr \<rightharpoonup> wiki_info) \<Rightarrow> ustr \<Rightarrow>
    wiki_info \<times> (ustr \<rightharpoonup> wiki_info)" where
  "wikipedia_summary e cache word0 =
     (let word = strip e word0 in
      if word = [] then (empty_info, cache)
      else let key = lower e word in
        case cache key of
          Some v \<Rightarrow> (v, cache)
        | None \<Rightarrow>
            (case wiki_fetch e word of
               Returned d \<Rightarrow>
                 (let out = \<lparr>info_img = strip e (info_img d),
                              info_desc_en = strip e (info_desc_en d),
                              info_extract_en = strip e (info_extract_en d)\<rparr>
                  in (out, cache(key \<mapsto> out)))
             | Raised \<Rightarrow> (empty_info, cache(key \<mapsto> empty_info))))"

section \<open>The round state\<close>

datatype status = Playing | Failed

text \<open>
  The \<open>message\<close> strings are f-strings over a few values; the model keeps which
  f-string it is and the values it prints, in their order.
\<close>

datatype message =
    StageStarted int
  | EnterOneLetter
  | AlreadyGuessed ustr
  | Correct int
  | Wrong int
  | GameOver ustr ustr
  | Clear ustr ustr
  | HintLimit
  | NoLettersLeft
  | Hint nat int int int

text \<open>
  The dictionary built by \<open>start_round\<close> (lines 121 to 141). \<open>guessed\<close> and \<open>wrong\<close>
  are lists of one-character strings, kept here as lists of code points.
\<close>

record game_state =
  stage :: int
  life :: int
  word :: ustr
  img :: ustr
  desc_en :: ustr
  extract_en :: ustr
  guessed :: "nat list"
  wrong :: "nat list"
  hint_letters_used :: int
  status :: status
  message :: message
  last_en :: ustr
  last_th :: ustr
  last_about_en :: ustr
  last_about_th :: ustr

text \<open>\<open>pick_word()\<close>: \<open>random.choice\<close> raises IndexError on an empty list.\<close>

definition pick_word :: "env \<Rightarrow> error + ustr" where
  "pick_word e =
     (if ANIMALS e = [] then Inl IndexError
      else Inr (ANIMALS e ! (rand_word e mod length (ANIMALS e))))"

definition start_round :: "env \<Rightarrow> (ustr \<rightharpoonup> wiki_info) \<Rightarrow> int \<Rightarrow> int \<Rightarrow>
    error + game_state \<times> (ustr \<rightharpoonup> wiki_info)" where
  "start_round e wcache stg lf =
     (case pick_word e of
        Inl err \<Rightarrow> Inl err
      | Inr w \<Rightarrow>
          (case wikipedia_summary e wcache w of
             (info, wcache') \<Rightarrow>
               Inr (\<lparr>stage = stg, life = lf, word = w,
                      img = info_img info, desc_en = info_desc_en info,
                      extract_en = info_extract_en info,
                      guessed = [], wrong = [], hint_letters_used = 0,
                      status = Playing, message = StageStarted stg,
                      last_en = [], last_th = [], last_about_en = [], last_about_th = []\<rparr>,
                    wcache')))"

text \<open>The dictionary returned by \<open>public_state\<close> (lines 147 to 166), field by field.\<close>

record public =
  p_stage :: int
  p_life :: int
  p_length :: nat
  p_masked :: ustr
  p_wrong :: "nat list"
  p_status :: status
  p_message :: message
  p_img :: ustr
  p_hint_letters_used :: int
  p_hint_letters_max :: int
  p_last_en :: ustr
  p_last_th :: ustr
  p_last_about_en :: ustr
  p_last_about_th :: ustr

definition public_state :: "game_state \<Rightarrow> public" where
  "public_state st =
     \<lparr>p_stage = stage st, p_life = life st, p_length = length (word st),
      p_masked = (if word st \<noteq> [] then mask_word (word st) (set (guessed st)) else []),
      p_wrong = wrong st, p_status = status st, p_message = message st,
      p_img = img st, p_hint_letters_used = hint_letters_used st,
      p_hint_letters_max = HINT_LETTER_MAX,
      p_last_en = last_en st, p_last_th = last_th st,
      p_last_about_en = last_about_en st, p_last_about_th = last_about_th st\<rparr>"

section \<open>The process: session and caches\<close>

record world =
  session_game :: "game_state option"
  TRANSLATE_CACHE :: "ustr \<rightharpoonup> ustr"
  WIKI_CACHE :: "ustr \<rightharpoonup> wiki_info"

datatype response =
    NoGame
  | StatusNoGame
  | OkTrue
  | Projection public

text \<open>
  The body of a guess request as line 205 and 206 read it: a string under the key
  \<open>guess\<close>; nothing usable (no JSON object, no such key, or a falsy value), which
  \<open>or ""\<close> turns into the empty string; or a truthy value that is no string (or a
  truthy body that is no object), on which \<open>.lower()\<close> (or \<open>.get\<close>) raises.
\<close>

datatype guess_input = GuessStr ustr | GuessAbsent | GuessOther

section \<open>End of a round\<close>

text \<open>
  The four assignments to \<open>last_en\<close>, \<open>last_th\<close>, \<open>last_about_en\<close> and
  \<open>last_about_th\<close> that both handlers make in both of their end-of-round branches
  (lines 238 to 243, 250 to 255, 306 to 311, 318 to 322). The two translations run in
  this order, the second on the cache the first one left.
\<close>

definition about_text :: "env \<Rightarrow> game_state \<Rightarrow> ustr" where
  "about_text e st = strip e (if desc_en st \<noteq> [] then desc_en st else extract_en st)"

definition capture_reveal :: "env \<Rightarrow> (ustr \<rightharpoonup> ustr) \<Rightarrow> game_state \<Rightarrow>
    game_state \<times> (ustr \<rightharpoonup> ustr)" where
  "capture_reveal e tcache st =
     (let about_en = about_text e st in
      case translate_to_th e tcache (word st) of
        (th, tcache1) \<Rightarrow>
          (case (if about_en \<noteq> [] then translate_to_th e tcache1 about_en
                 else (ascii ''-'', tcache1)) of
             (ath, tcache2) \<Rightarrow>
               (st\<lparr>last_en := word st,
                    last_th := (if th \<noteq> [] then th else ascii ''-''),
                    last_about_en := (if about_en \<noteq> [] then about_en else ascii ''-''),
                    last_about_th := ath\<rparr>,
                tcache2)))"

text \<open>
  What \<open>api_guess\<close> does from line 236 and \<open>api_hint_letter\<close> from line 304, on the
  state as the move left it: the failure test first, then the clear test, then
  \<open>save_state\<close> and the projection.
\<close>

definition word_cleared :: "game_state \<Rightarrow> bool" where
  "word_cleared st = list_all (\<lambda>c. c \<in> set (guessed st)) (word st)"

definition end_of_round :: "env \<Rightarrow> world \<Rightarrow> game_state \<Rightarrow> error + response \<times> world" where
  "end_of_round e w st =
     (if life st \<le> 0 then
        (case capture_reveal e (TRANSLATE_CACHE w) (st\<lparr>status := Failed\<rparr>) of
           (st1, tcache) \<Rightarrow>
             (let st2 = st1\<lparr>message := GameOver (last_en st1) (last_th st1)\<rparr>
              in Inr (Projection (public_state st2),
                      w\<lparr>session_game := Some st2, TRANSLATE_CACHE := tcache\<rparr>)))
      else if word_cleared st then
        (case capture_reveal e (TRANSLATE_CACHE w) st of
           (st1, tcache) \<Rightarrow>
             (case start_round e (WIKI_CACHE w) (stage st1 + 1) (life st1) of
                Inl err \<Rightarrow> Inl err
              | Inr (nxt, wcache) \<Rightarrow>
                  (let nxt' = nxt\<lparr>last_en := last_en st1, last_th := last_th st1,
                                   last_about_en := last_about_en st1,
                                   last_about_th := last_about_th st1,
                                   message := Clear (last_en st1) (last_th st1)\<rparr>
                   in Inr (Projection (public_state nxt'),
                           w\<lparr>session_game := Some nxt', TRANSLATE_CACHE := tcache,
                             WIKI_CACHE := wcache\<rparr>))))
      else Inr (Projection (public_state st), w\<lparr>session_game := Some st\<rparr>))"

text \<open>A handler that only sets the message, saves and answers (lines 209 to 211 and alike).\<close>

definition advise :: "world \<Rightarrow> game_state \<Rightarrow> message \<Rightarrow> error + response \<times> world" where
  "advise w st m =
     (let st' = st\<lparr>message := m\<rparr>
      in Inr (Projection (public_state st'), w\<lparr>session_game := Some st'\<rparr>))"

section \<open>Routes\<close>

definition api_state :: "world \<Rightarrow> error + response \<times> world" where
  "api_state w =
     (case session_game w of
        None \<Rightarrow> Inr (StatusNoGame, w)
      | Some st \<Rightarrow> Inr (Projection (public_state st), w))"

definition api_reset :: "world \<Rightarrow> error + response \<times> world" where
  "api_reset w = Inr (OkTrue, w\<lparr>session_game := None\<rparr>)"

definition api_start :: "env \<Rightarrow> world \<Rightarrow> error + response \<times> world" where
  "api_start e w =
     (case start_round e (WIKI_CACHE w) 1 START_LIFE of
        Inl err \<Rightarrow> Inl err
      | Inr (st, wcache) \<Rightarrow>
          Inr (Projection (public_state st), w\<lparr>session_game := Some st, WIKI_CACHE := wcache\<rparr>))"

text \<open>The move of a fresh letter, lines 223 to 234.\<close>

definition guess_move :: "game_state \<Rightarrow> nat \<Rightarrow> game_state" where
  "guess_move st g =
     (if g \<in> set (word st) then
        st\<lparr>guessed := sorted_list (g # guessed st), wrong := sorted_list (wrong st),
           life := life st + 2, message := Correct (life st + 2)\<rparr>
      else
        st\<lparr>guessed := sorted_list (guessed st), wrong := sorted_list (g # wrong st),
           life := life st - 1, message := Wrong (life st - 1)\<rparr>)"

definition api_guess :: "env \<Rightarrow> world \<Rightarrow> guess_input \<Rightarrow> error + response \<times> world" where
  "api_guess e w inp =
     (case session_game w of
        None \<Rightarrow> Inr (NoGame, w)
      | Some st \<Rightarrow>
          if status st \<noteq> Playing then Inr (Projection (public_state st), w)
          else
            (case inp of
               GuessOther \<Rightarrow> Inl AttributeError
             | _ \<Rightarrow>
                 (let g = strip e (lower e (case inp of GuessStr s \<Rightarrow> s | _ \<Rightarrow> [])) in
                  if length g \<noteq> 1 \<or> \<not> isalpha e g then advise w st EnterOneLetter
                  else if hd g \<in> set (guessed st) \<or> hd g \<in> set (wrong st)
                    then advise w st (AlreadyGuessed g)
                  else end_of_round e w (guess_move st (hd g)))))"

text \<open>The letters a hint may reveal (line 289) and the move of a hint (lines 296 to 302).\<close>

definition remaining :: "env \<Rightarrow> game_state \<Rightarrow> nat list" where
  "remaining e st =
     sorted_list (filter (\<lambda>c. isalpha e [c] \<and> c \<notin> set (guessed st)) (word st))"

definition hint_move :: "game_state \<Rightarrow> nat \<Rightarrow> game_state" where
  "hint_move st reveal =
     st\<lparr>guessed := sorted_list (reveal # guessed st),
        hint_letters_used := hint_letters_used st + 1,
        life := life st - HINT_LETTER_COST,
        message := Hint reveal HINT_LETTER_COST (hint_letters_used st + 1) HINT_LETTER_MAX\<rparr>"

text \<open>
  \<open>random.choice(remaining)\<close>, line 296, where \<open>remaining\<close> is not empty: any of its
  elements, as the draw decides.
\<close>

definition choose_reveal :: "env \<Rightarrow> game_state \<Rightarrow> nat" where
  "choose_reveal e st = remaining e st ! (rand_reveal e mod length (remaining e st))"

definition api_hint_letter :: "env \<Rightarrow> world \<Rightarrow> error + response \<times> world" where
  "api_hint_letter e w =
     (case session_game w of
        None \<Rightarrow> Inr (NoGame, w)
      | Some st \<Rightarrow>
          if status st \<noteq> Playing then Inr (Projection (public_state st), w)
          else if hint_letters_used st \<ge> HINT_LETTER_MAX then advise w st HintLimit
          else if remaining e st = [] then advise w st NoLettersLeft
          else end_of_round e w (hint_move st (choose_reveal e st)))"

section \<open>Runs of requests\<close>

datatype command = Start | Reset | QueryState | Guess guess_input | HintLetter

definition handle :: "env \<Rightarrow> command \<Rightarrow> world \<Rightarrow> error + response \<times> world" where
  "handle e c w =
     (case c of
        Start \<Rightarrow> api_start e w
      | Reset \<Rightarrow> api_reset w
      | QueryState \<Rightarrow> api_state w
      | Guess inp \<Rightarrow> api_guess e w inp
      | HintLetter \<Rightarrow> api_hint_letter e w)"

text \<open>
  A request whose handler raises leaves the session and the caches as they were in
  this model. The process starts with no game and empty caches; each request of a
  run comes with its own surroundings.
\<close>

definition step :: "world \<Rightarrow> env \<times> command \<Rightarrow> world" where
  "step w ec = (case handle (fst ec) (snd ec) w of Inl err \<Rightarrow> w | Inr (r, w') \<Rightarrow> w')"

definition initial_world :: world where
  "initial_world = \<lparr>session_game = None, TRANSLATE_CACHE = Map.empty, WIKI_CACHE = Map.empty\<rparr>"

definition run :: "(env \<times> command) list \<Rightarrow> world" where
  "run cs = foldl step initial_world cs"

section \<open>Vocabulary of the properties\<close>

text \<open>
  The session holds a round in progress: the tests of lines 200 and 202 (or 276 and
  278) both let the request through.
\<close>

definition playing_in :: "world \<Rightarrow> game_state \<Rightarrow> bool" where
  "playing_in w st = (session_game w = Some st \<and> status st = Playing)"

text \<open>
  The request text \<open>s\<close> passes the tests of lines 208 and 218 as the letter \<open>g\<close>:
  \<open>s.lower().strip()\<close> is the one-character string \<open>g\<close>, \<open>g.isalpha()\<close> holds, and
  \<open>g\<close> was not tried before.
\<close>

definition fresh_guess :: "env \<Rightarrow> game_state \<Rightarrow> ustr \<Rightarrow> nat \<Rightarrow> bool" where
  "fresh_guess e st s g =
     (strip e (lower e s) = [g] \<and> isalpha e [g]
      \<and> g \<notin> set (guessed st) \<and> g \<notin> set (wrong st))"

text \<open>A hint request passes the tests of lines 282 and 291.\<close>

definition hint_accepted :: "env \<Rightarrow> game_state \<Rightarrow> bool" where
  "hint_accepted e st = (hint_letters_used st < HINT_LETTER_MAX \<and> remaining e st \<noteq> [])"

text \<open>
  The values the end-of-round branches store for a round \<open>st\<close> when the translation
  cache is \<open>tcache\<close>: \<open>translate_to_th(word) or "-"\<close>, \<open>about_en or "-"\<close> and
  \<open>translate_to_th(about_en) if about_en else "-"\<close>, the second translation seeing
  the cache the first one left.
\<close>

definition reveal_th :: "env \<Rightarrow> (ustr \<rightharpoonup> ustr) \<Rightarrow> game_state \<Rightarrow> ustr" where
  "reveal_th e tcache st =
     (let th = fst (translate_to_th e tcache (word st))
      in if th \<noteq> [] then th else ascii ''-'')"

definition reveal_about_en :: "env \<Rightarrow> game_state \<Rightarrow> ustr" where
  "reveal_about_en e st = (if about_text e st \<noteq> [] then about_text e st else ascii ''-'')"

definition reveal_about_th :: "env \<Rightarrow> (ustr \<rightharpoonup> ustr) \<Rightarrow> game_state \<Rightarrow> ustr" where
  "reveal_about_th e tcache st =
     (if about_text e st \<noteq> []
      then fst (translate_to_th e (snd (translate_to_th e tcache (word st))) (about_text e st))
      else ascii ''-'')"

text \<open>The requests that play: a guess or a hint.\<close>

fun is_move :: "env \<times> command \<Rightarrow> bool" where
  "is_move (e, Guess inp) = True"
| "is_move (e, HintLetter) = True"
| "is_move (e, c) = False"

text \<open>
  What holds of the saved round after every run of requests (proved below): it is
  failed exactly when its life is used up, and its hint count lies between 0 and
  \<open>HINT_LETTER_MAX\<close>.
\<close>

definition round_ok :: "game_state \<Rightarrow> bool" where
  "round_ok st =
     ((status st = Failed) = (life st \<le> 0)
      \<and> 0 \<le> hint_letters_used st \<and> hint_letters_used st \<le> HINT_LETTER_MAX)"

definition world_ok :: "world \<Rightarrow> bool" where
  "world_ok w = (case session_game w of None \<Rightarrow> True | Some st \<Rightarrow> round_ok st)"

section \<open>Concrete inputs\<close>

text \<open>
  The examples below are all spelt in ASCII, where the three \<open>str\<close> methods are
  these: \<open>strip()\<close> removes TAB, LF, VT, FF, CR, the separators 0x1C to 0x1F and the
  space from both ends, \<open>lower()\<close> sends A to Z to a to z, and \<open>isalpha()\<close> holds of
  the non-empty strings of letters A to Z and a to z.
\<close>

definition ascii_isspace :: "nat \<Rightarrow> bool" where
  "ascii_isspace n = ((9 \<le> n \<and> n \<le> 13) \<or> (28 \<le> n \<and> n \<le> 32))"

definition ascii_strip :: "ustr \<Rightarrow> ustr" where
  "ascii_strip s = rev (dropWhile ascii_isspace (rev (dropWhile ascii_isspace s)))"

definition ascii_lower :: "ustr \<Rightarrow> ustr" where
  "ascii_lower s = map (\<lambda>n. if 65 \<le> n \<and> n \<le> 90 then n + 32 else n) s"

definition ascii_isalpha :: "ustr \<Rightarrow> bool" where
  "ascii_isalpha s =
     (s \<noteq> [] \<and> list_all (\<lambda>n. (65 \<le> n \<and> n \<le> 90) \<or> (97 \<le> n \<and> n \<le> 122)) s)"

text \<open>
  Surroundings in which every service is down, and surroundings in which the
  translation library and Wikipedia answer; a round in progress on a given word with
  a given life; the process holding that round with empty caches.
\<close>

definition env_down :: env where
  "env_down =
     \<lparr>strip = ascii_strip, lower = ascii_lower, isalpha = ascii_isalpha,
      ANIMALS = [ascii ''cat'', ascii ''dog''], HAS_TRANSLATE_LIB = False,
      lib_translate = (\<lambda>t. Raised), mymemory_translate = (\<lambda>t. Raised),
      wiki_fetch = (\<lambda>t. Raised), rand_word = 0, rand_reveal = 0\<rparr>"

definition env_up :: env where
  "env_up =
     \<lparr>strip = ascii_strip, lower = ascii_lower, isalpha = ascii_isalpha,
      ANIMALS = [ascii ''cat'', ascii ''dog''], HAS_TRANSLATE_LIB = True,
      lib_translate = (\<lambda>t. Returned (ascii ''th:'' @ t)),
      mymemory_translate = (\<lambda>t. Raised),
      wiki_fetch = (\<lambda>t. Returned \<lparr>info_img = ascii ''img:'' @ t,
                                     info_desc_en = ascii ''animal'',
                                     info_extract_en = ascii ''a long text''\<rparr>),
      rand_word = 1, rand_reveal = 0\<rparr>"

definition round_on :: "string \<Rightarrow> int \<Rightarrow> game_state" where
  "round_on w lf =
     \<lparr>stage = 1, life = lf, word = ascii w, img = [], desc_en = ascii ''animal'',
      extract_en = [], guessed = [], wrong = [], hint_letters_used = 0, status = Playing,
      message = StageStarted 1,
      last_en = [], last_th = [], last_about_en = [], last_about_th = []\<rparr>"

definition world_with :: "game_state \<Rightarrow> world" where
  "world_with st = \<lparr>session_game = Some st, TRANSLATE_CACHE = Map.empty, WIKI_CACHE = Map.empty\<rparr>"

definition failed_dog :: game_state where
  "failed_dog = (round_on ''dog'' 0)\<lparr>status := Failed, last_en := ascii ''dog''\<rparr>"


definition ox_with_o :: game_state where
  "ox_with_o = (round_on ''ox'' 2)\<lparr>guessed := ascii ''o''\<rparr>"

text \<open>A game played to its end: two hints and four wrong guesses on the word cat.\<close>

definition doomed_run :: "(env \<times> command) list" where
  "doomed_run = [(env_down, Start), (env_down, HintLetter), (env_down, HintLetter),
     (env_down, Guess (GuessStr (ascii ''x''))), (env_down, Guess (GuessStr (ascii ''y''))),
     (env_down, Guess (GuessStr (ascii ''z''))), (env_down, Guess (GuessStr (ascii ''q'')))]"

definition cat_with_ac :: game_state where
  "cat_with_ac = (round_on ''cat'' 11)\<lparr>guessed := ascii ''ac'', wrong := ascii ''x''\<rparr>"

definition owl_with_ow :: game_state where
  "owl_with_ow = (round_on ''owl'' 8)\<lparr>guessed := ascii ''ow'', hint_letters_used := 1\<rparr>"

definition owl_two_hints :: game_state where
  "owl_two_hints = (round_on ''owl'' 4)\<lparr>guessed := ascii ''lo'', hint_letters_used := 2\<rparr>"


section \<open>The masked word\<close>

lemma mask_cell_single: "mask_cell g c = [if c \<in> g then c else of_char CHR ''_'']"
  by (simp add: mask_cell_def ascii_def)

lemma join_singletons_length:
  "length (join [s] (map (\<lambda>c. [f c]) xs)) = 2 * length xs - 1"
proof (induction xs)
  case Nil
  show ?case by simp
next
  case (Cons x xs)
  then show ?case by (cases xs) simp_all
qed

lemma join_singletons_even:
  "i < length xs \<Longrightarrow> join [s] (map (\<lambda>c. [f c]) xs) ! (2 * i) = f (xs ! i)"
proof (induction xs arbitrary: i)
  case Nil
  then show ?case by simp
next
  case (Cons x xs)
  note IH = Cons.IH and prems = Cons.prems
  show ?case
  proof (cases xs)
    case Nil
    with prems show ?thesis by simp
  next
    case tail: (Cons y ys)
    show ?thesis
    proof (cases i)
      case 0
      with tail show ?thesis by simp
    next
      case (Suc j)
      with prems have "j < length xs" by simp
      from IH [OF this] Suc tail show ?thesis by simp
    qed
  qed
qed

lemma join_singletons_odd:
  "Suc i < length xs \<Longrightarrow> join [s] (map (\<lambda>c. [f c]) xs) ! (2 * i + 1) = s"
proof (induction xs arbitrary: i)
  case Nil
  then show ?case by simp
next
  case (Cons x xs)
  note IH = Cons.IH and prems = Cons.prems
  show ?case
  proof (cases xs)
    case Nil
    with prems show ?thesis by simp
  next
    case tail: (Cons y ys)
    show ?thesis
    proof (cases i)
      case 0
      with tail show ?thesis by simp
    next
      case (Suc j)
      with prems have "Suc j < length xs" by simp
      from IH [OF this] Suc tail show ?thesis by simp
    qed
  qed
qed

lemma mask_word_singletons:
  "mask_word wd g =
     join [of_char CHR '' ''] (map (\<lambda>c. [if c \<in> g then c else of_char CHR ''_'']) wd)"
  by (simp add: mask_word_def mask_cell_single [abs_def] ascii_def)

lemma length_mask_word: "length (mask_word wd g) = 2 * length wd - 1"
  unfolding mask_word_singletons by (rule join_singletons_length)

lemma mask_word_even:
  "i < length wd \<Longrightarrow> mask_word wd g ! (2 * i) = (if wd ! i \<in> g then wd ! i else of_char CHR ''_'')"
  unfolding mask_word_singletons by (rule join_singletons_even)

lemma mask_word_odd:
  "Suc i < length wd \<Longrightarrow> mask_word wd g ! (2 * i + 1) = of_char CHR '' ''"
  unfolding mask_word_singletons by (rule join_singletons_odd)

lemma p_masked_eq: "p_masked (public_state st) = mask_word (word st) (set (guessed st))"
  by (simp add: public_state_def mask_word_def)

text \<open>
  C4 (amended). For every word and every guessed set, the masked string has one cell
  per letter of the word, the cells separated by single spaces: cell \<open>i\<close> stands at
  index \<open>2 * i\<close> and shows the letter when it is in \<open>guessed\<close> and the placeholder
  \<open>_\<close> otherwise. So the masked string of a non-empty word has
  \<open>2 * length word - 1\<close> characters, not \<open>length word\<close>; it is the \<open>length\<close> field of
  the projection that equals the length of the word.
\<close>

theorem mask_word_layout:
  "(wd \<noteq> [] \<longrightarrow> length (mask_word wd g) = 2 * length wd - 1)
   \<and> (wd = [] \<longrightarrow> mask_word wd g = [])
   \<and> (i < length wd \<longrightarrow>
        mask_word wd g ! (2 * i) = (if wd ! i \<in> g then wd ! i else of_char CHR ''_''))
   \<and> (Suc i < length wd \<longrightarrow> mask_word wd g ! (2 * i + 1) = of_char CHR '' '')
   \<and> p_length (public_state st) = length (word st)
   \<and> p_masked (public_state st) = mask_word (word st) (set (guessed st))"
  using length_mask_word mask_word_even mask_word_odd p_masked_eq
  by (simp add: public_state_def mask_word_def)

theorem mask_word_layout_witness:
  "ascii ''cat'' \<noteq> [] \<and> length (mask_word (ascii ''cat'') (set (ascii ''a''))) = 5
   \<and> (1::nat) < length (ascii ''cat'')
   \<and> mask_word (ascii ''cat'') (set (ascii ''a'')) ! 2 = of_char CHR ''a''
   \<and> mask_word (ascii ''cat'') (set (ascii ''a'')) ! 0 = of_char CHR ''_''
   \<and> mask_word (ascii ''cat'') (set (ascii ''a'')) ! 3 = of_char CHR '' ''
   \<and> mask_word [] (set (ascii ''a'')) = []
   \<and> p_length (public_state (round_on ''cat'' 8)) = 3"
  using mask_word_layout [of "ascii ''cat''" "set (ascii ''a'')" 1 "round_on ''cat'' 8"]
    mask_word_layout [of "ascii ''cat''" "set (ascii ''a'')" 0 "round_on ''cat'' 8"]
    mask_word_layout [of "[]" "set (ascii ''a'')" 0 "round_on ''cat'' 8"]
  by (simp add: round_on_def ascii_def)

theorem mask_word_length_counterexample:
  "mask_word (ascii ''cat'') (set (ascii ''a'')) = ascii ''_ a _''
   \<and> length (mask_word (ascii ''cat'') (set (ascii ''a''))) \<noteq> length (ascii ''cat'')"
  by (simp add: mask_word_def mask_cell_def ascii_def)

section \<open>The end of a round\<close>

lemma capture_reveal_shape:
  "\<exists>tc. capture_reveal e c s =
     (s\<lparr>last_en := word s, last_th := reveal_th e c s,
        last_about_en := reveal_about_en e s, last_about_th := reveal_about_th e c s\<rparr>, tc)"
  by (simp add: capture_reveal_def reveal_th_def reveal_about_en_def reveal_about_th_def
      Let_def split: prod.splits)

lemma reveal_of_failed:
  "reveal_th e c (s\<lparr>status := Failed\<rparr>) = reveal_th e c s"
  "reveal_about_en e (s\<lparr>status := Failed\<rparr>) = reveal_about_en e s"
  "reveal_about_th e c (s\<lparr>status := Failed\<rparr>) = reveal_about_th e c s"
  by (simp_all add: reveal_th_def reveal_about_en_def reveal_about_th_def about_text_def)

lemma end_of_round_failed:
  assumes "life s \<le> 0"
  shows "\<exists>tc. end_of_round e w s =
           Inr (Projection (public_state
                  (s\<lparr>status := Failed, last_en := word s,
                     last_th := reveal_th e (TRANSLATE_CACHE w) s,
                     last_about_en := reveal_about_en e s,
                     last_about_th := reveal_about_th e (TRANSLATE_CACHE w) s,
                     message := GameOver (word s) (reveal_th e (TRANSLATE_CACHE w) s)\<rparr>)),
                w\<lparr>session_game := Some
                  (s\<lparr>status := Failed, last_en := word s,
                     last_th := reveal_th e (TRANSLATE_CACHE w) s,
                     last_about_en := reveal_about_en e s,
                     last_about_th := reveal_about_th e (TRANSLATE_CACHE w) s,
                     message := GameOver (word s) (reveal_th e (TRANSLATE_CACHE w) s)\<rparr>),
                  TRANSLATE_CACHE := tc\<rparr>)"
proof -
  obtain tc where c: "capture_reveal e (TRANSLATE_CACHE w) (s\<lparr>status := Failed\<rparr>) =
     (s\<lparr>status := Failed, last_en := word s, last_th := reveal_th e (TRANSLATE_CACHE w) s,
        last_about_en := reveal_about_en e s,
        last_about_th := reveal_about_th e (TRANSLATE_CACHE w) s\<rparr>, tc)"
    using capture_reveal_shape [of e "TRANSLATE_CACHE w" "s\<lparr>status := Failed\<rparr>"]
    by (auto simp: reveal_of_failed)
  have "end_of_round e w s =
          Inr (Projection (public_state
                  (s\<lparr>status := Failed, last_en := word s,
                     last_th := reveal_th e (TRANSLATE_CACHE w) s,
                     last_about_en := reveal_about_en e s,
                     last_about_th := reveal_about_th e (TRANSLATE_CACHE w) s,
                     message := GameOver (word s) (reveal_th e (TRANSLATE_CACHE w) s)\<rparr>)),
                w\<lparr>session_game := Some
                  (s\<lparr>status := Failed, last_en := word s,
                     last_th := reveal_th e (TRANSLATE_CACHE w) s,
                     last_about_en := reveal_about_en e s,
                     last_about_th := reveal_about_th e (TRANSLATE_CACHE w) s,
                     message := GameOver (word s) (reveal_th e (TRANSLATE_CACHE w) s)\<rparr>),
                  TRANSLATE_CACHE := tc\<rparr>)"
    using assms by (simp add: end_of_round_def c Let_def)
  then show ?thesis by blast
qed

lemma start_round_ok:
  assumes "ANIMALS e \<noteq> []"
  shows "\<exists>nxt wc. start_round e wcache stg lf = Inr (nxt, wc)
         \<and> stage nxt = stg \<and> life nxt = lf
         \<and> word nxt = ANIMALS e ! (rand_word e mod length (ANIMALS e))
         \<and> guessed nxt = [] \<and> wrong nxt = [] \<and> hint_letters_used nxt = 0
         \<and> status nxt = Playing \<and> message nxt = StageStarted stg
         \<and> last_en nxt = [] \<and> last_th nxt = [] \<and> last_about_en nxt = []
         \<and> last_about_th nxt = []"
  using assms by (simp add: start_round_def pick_word_def split: prod.splits)

lemma start_round_none:
  assumes "ANIMALS e = []"
  shows "start_round e wcache stg lf = Inl IndexError"
  using assms by (simp add: start_round_def pick_word_def)

lemma end_of_round_cleared:
  assumes "0 < life s" and "word_cleared s" and "ANIMALS e \<noteq> []"
  shows "\<exists>nxt tc wc. end_of_round e w s =
           Inr (Projection (public_state nxt),
                w\<lparr>session_game := Some nxt, TRANSLATE_CACHE := tc, WIKI_CACHE := wc\<rparr>)
         \<and> stage nxt = stage s + 1 \<and> life nxt = life s
         \<and> guessed nxt = [] \<and> wrong nxt = [] \<and> hint_letters_used nxt = 0
         \<and> status nxt = Playing
         \<and> word nxt = ANIMALS e ! (rand_word e mod length (ANIMALS e))
         \<and> last_en nxt = word s
         \<and> last_th nxt = reveal_th e (TRANSLATE_CACHE w) s
         \<and> last_about_en nxt = reveal_about_en e s
         \<and> last_about_th nxt = reveal_about_th e (TRANSLATE_CACHE w) s
         \<and> message nxt = Clear (word s) (reveal_th e (TRANSLATE_CACHE w) s)"
proof -
  let ?th = "reveal_th e (TRANSLATE_CACHE w) s"
  let ?about = "reveal_about_en e s"
  let ?ath = "reveal_about_th e (TRANSLATE_CACHE w) s"
  obtain tc where c: "capture_reveal e (TRANSLATE_CACHE w) s =
     (s\<lparr>last_en := word s, last_th := ?th, last_about_en := ?about, last_about_th := ?ath\<rparr>, tc)"
    using capture_reveal_shape [of e "TRANSLATE_CACHE w" s] by auto
  obtain nxt wc where n: "start_round e (WIKI_CACHE w) (stage s + 1) (life s) = Inr (nxt, wc)"
    and f: "stage nxt = stage s + 1" "life nxt = life s"
      "word nxt = ANIMALS e ! (rand_word e mod length (ANIMALS e))"
      "guessed nxt = []" "wrong nxt = []" "hint_letters_used nxt = 0" "status nxt = Playing"
    using start_round_ok [OF assms(3), of "WIKI_CACHE w" "stage s + 1" "life s"] by auto
  let ?nxt = "nxt\<lparr>last_en := word s, last_th := ?th, last_about_en := ?about,
                   last_about_th := ?ath, message := Clear (word s) ?th\<rparr>"
  have "end_of_round e w s =
          Inr (Projection (public_state ?nxt),
               w\<lparr>session_game := Some ?nxt, TRANSLATE_CACHE := tc, WIKI_CACHE := wc\<rparr>)"
    using assms(1,2) by (simp add: end_of_round_def c n Let_def)
  moreover have "stage ?nxt = stage s + 1 \<and> life ?nxt = life s
         \<and> guessed ?nxt = [] \<and> wrong ?nxt = [] \<and> hint_letters_used ?nxt = 0
         \<and> status ?nxt = Playing
         \<and> word ?nxt = ANIMALS e ! (rand_word e mod length (ANIMALS e))
         \<and> last_en ?nxt = word s \<and> last_th ?nxt = ?th \<and> last_about_en ?nxt = ?about
         \<and> last_about_th ?nxt = ?ath \<and> message ?nxt = Clear (word s) ?th"
    using f by simp
  ultimately show ?thesis by blast
qed

lemma end_of_round_cleared_none:
  assumes "0 < life s" and "word_cleared s" and "ANIMALS e = []"
  shows "end_of_round e w s = Inl IndexError"
  using assms by (simp add: end_of_round_def start_round_none split: prod.splits)

lemma end_of_round_continues:
  assumes "0 < life s" and "\<not> word_cleared s"
  shows "end_of_round e w s = Inr (Projection (public_state s), w\<lparr>session_game := Some s\<rparr>)"
  using assms by (simp add: end_of_round_def)

text \<open>What every outcome of the end-of-round test has in common.\<close>

lemma end_of_round_returns:
  assumes "ANIMALS e \<noteq> []" and "status s = Playing"
  shows "\<exists>st' w'. end_of_round e w s = Inr (Projection (public_state st'), w')
         \<and> session_game w' = Some st' \<and> life st' = life s
         \<and> (status st' = Failed) = (life s \<le> 0)"
proof (cases "life s \<le> 0")
  case True
  from end_of_round_failed [OF True, of e w] show ?thesis using True by auto
next
  case False
  then have pos: "0 < life s" by simp
  show ?thesis
  proof (cases "word_cleared s")
    case True
    from end_of_round_cleared [OF pos True assms(1), of w] show ?thesis using pos by auto
  next
    case False
    from end_of_round_continues [OF pos False, of e w] show ?thesis
      using pos assms(2) by auto
  qed
qed

lemma end_of_round_saved:
  assumes "status s = Playing" and "end_of_round e w s = Inr (r, w')"
  shows "\<exists>st'. session_game w' = Some st' \<and> r = Projection (public_state st')
         \<and> life st' = life s \<and> (status st' = Failed) = (life s \<le> 0)
         \<and> (hint_letters_used st' = hint_letters_used s \<or> hint_letters_used st' = 0)"
proof (cases "life s \<le> 0")
  case True
  from end_of_round_failed [OF True, of e w] show ?thesis using True assms(2) by auto
next
  case False
  then have pos: "0 < life s" by simp
  show ?thesis
  proof (cases "word_cleared s")
    case True
    note cleared = True
    show ?thesis
    proof (cases "ANIMALS e = []")
      case True
      from end_of_round_cleared_none [OF pos cleared True, of w] assms(2) show ?thesis by simp
    next
      case False
      from end_of_round_cleared [OF pos cleared False, of w] show ?thesis
        using pos assms(2) by auto
    qed
  next
    case False
    from end_of_round_continues [OF pos False, of e w] show ?thesis
      using pos assms by auto
  qed
qed

section \<open>The handlers on a round in progress\<close>

lemma api_guess_fresh:
  assumes "playing_in w st" and "fresh_guess e st s g"
  shows "api_guess e w (GuessStr s) = end_of_round e w (guess_move st g)"
  using assms
  by (simp add: api_guess_def playing_in_def fresh_guess_def Let_def)

lemma api_hint_letter_accepted:
  assumes "playing_in w st" and "hint_accepted e st"
  shows "api_hint_letter e w = end_of_round e w (hint_move st (choose_reveal e st))"
  using assms
  by (simp add: api_hint_letter_def playing_in_def hint_accepted_def)

lemma api_guess_advises:
  assumes "playing_in w st" and "inp \<noteq> GuessOther"
    and "g = strip e (lower e (case inp of GuessStr s \<Rightarrow> s | _ \<Rightarrow> []))"
    and "length g \<noteq> 1 \<or> \<not> isalpha e g \<or> hd g \<in> set (guessed st) \<or> hd g \<in> set (wrong st)"
  shows "\<exists>m. api_guess e w inp =
           Inr (Projection (public_state (st\<lparr>message := m\<rparr>)),
                w\<lparr>session_game := Some (st\<lparr>message := m\<rparr>)\<rparr>)"
  using assms
  by (cases inp) (auto simp: api_guess_def playing_in_def advise_def Let_def)

text \<open>A body with no usable \<open>guess\<close> value is read as the empty string (\<open>or ""\<close>, line 206).\<close>

lemma api_guess_absent: "api_guess e w GuessAbsent = api_guess e w (GuessStr [])"
  by (simp add: api_guess_def Let_def split: option.splits)


lemma moves_keep_status:
  "status (guess_move st g) = status st" "status (hint_move st r) = status st"
  "life (guess_move st g) = (if g \<in> set (word st) then life st + 2 else life st - 1)"
  "life (hint_move st r) = life st - 2"
  "hint_letters_used (guess_move st g) = hint_letters_used st"
  "hint_letters_used (hint_move st r) = hint_letters_used st + 1"
  "word (guess_move st g) = word st" "word (hint_move st r) = word st"
  "stage (guess_move st g) = stage st" "stage (hint_move st r) = stage st"
  by (simp_all add: guess_move_def hint_move_def HINT_LETTER_COST_def)

section \<open>A failed round is terminal\<close>

lemma failed_guess_noop:
  assumes "session_game w = Some st" and "status st = Failed"
  shows "api_guess e w inp = Inr (Projection (public_state st), w)"
  using assms by (simp add: api_guess_def)

lemma failed_hint_noop:
  assumes "session_game w = Some st" and "status st = Failed"
  shows "api_hint_letter e w = Inr (Projection (public_state st), w)"
  using assms by (simp add: api_hint_letter_def)

lemma failed_moves_noop:
  assumes "session_game w = Some st" and "status st = Failed" and "list_all is_move cs"
  shows "foldl step w cs = w"
  using assms(3)
proof (induction cs)
  case Nil
  show ?case by simp
next
  case (Cons c cs)
  obtain e cmd where c: "c = (e, cmd)" by (cases c)
  from Cons.prems c have "step w c = w"
    using failed_guess_noop [OF assms(1,2)] failed_hint_noop [OF assms(1,2)]
    by (cases cmd) (simp_all add: step_def handle_def)
  with Cons show ?case by simp
qed

text \<open>
  C7. Once the saved round has status Failed, a guess (whatever its body) and a hint
  answer with the projection of that round and leave the session and both caches as
  they were, message included; so does any sequence of guesses and hints. Only
  \<open>api_start\<close> and \<open>api_reset\<close> replace the round.
\<close>

theorem failed_is_terminal:
  "session_game w = Some st \<and> status st = Failed \<longrightarrow>
     api_guess e w inp = Inr (Projection (public_state st), w)
     \<and> api_hint_letter e w = Inr (Projection (public_state st), w)
     \<and> (list_all is_move cs \<longrightarrow> foldl step w cs = w)"
  using failed_guess_noop failed_hint_noop failed_moves_noop by blast

theorem failed_is_terminal_witness:
  "session_game (world_with failed_dog) = Some failed_dog \<and> status failed_dog = Failed
   \<and> api_guess env_up (world_with failed_dog) (GuessStr (ascii ''d''))
       = Inr (Projection (public_state failed_dog), world_with failed_dog)
   \<and> api_hint_letter env_up (world_with failed_dog)
       = Inr (Projection (public_state failed_dog), world_with failed_dog)
   \<and> list_all is_move
        [(env_up, Guess (GuessStr (ascii ''d''))), (env_down, HintLetter), (env_up, Guess GuessOther)]
   \<and> foldl step (world_with failed_dog)
        [(env_up, Guess (GuessStr (ascii ''d''))), (env_down, HintLetter), (env_up, Guess GuessOther)]
       = world_with failed_dog"
  using failed_is_terminal [of "world_with failed_dog" failed_dog env_up "GuessStr (ascii ''d'')"
      "[(env_up, Guess (GuessStr (ascii ''d''))), (env_down, HintLetter), (env_up, Guess GuessOther)]"]
  by (simp add: world_with_def failed_dog_def round_on_def)

section \<open>Rejected guesses\<close>



section \<open>Life\<close>

lemmas concrete_defs = world_with_def round_on_def playing_in_def fresh_guess_def
  hint_accepted_def ascii_def ascii_strip_def ascii_lower_def ascii_isspace_def
  ascii_isalpha_def remaining_def sorted_list_def HINT_LETTER_MAX_def env_up_def env_down_def

text \<open>
  C2. On a round in progress (and a non-empty word list, which line 27 guarantees),
  every fresh valid letter guess is answered with the projection of the saved round,
  whose life is the old life plus 2 when the letter occurs in the word and the old
  life minus 1 otherwise; every accepted hint is answered likewise with the old life
  minus 2. Nothing is assumed about the old life, nor about whether the move fails
  or clears the round.
\<close>

theorem life_changes_by_fixed_amounts:
  "playing_in w st \<and> ANIMALS e \<noteq> [] \<longrightarrow>
     (fresh_guess e st s g \<longrightarrow>
        (\<exists>st' w'. api_guess e w (GuessStr s) = Inr (Projection (public_state st'), w')
           \<and> session_game w' = Some st'
           \<and> life st' = (if g \<in> set (word st) then life st + 2 else life st - 1)))
     \<and> (hint_accepted e st \<longrightarrow>
        (\<exists>st' w'. api_hint_letter e w = Inr (Projection (public_state st'), w')
           \<and> session_game w' = Some st'
           \<and> life st' = life st - 2))"
proof (intro impI conjI)
  assume a: "playing_in w st \<and> ANIMALS e \<noteq> []" and f: "fresh_guess e st s g"
  from a have p: "status (guess_move st g) = Playing"
    by (simp add: playing_in_def moves_keep_status)
  from a f have "api_guess e w (GuessStr s) = end_of_round e w (guess_move st g)"
    by (simp add: api_guess_fresh)
  with end_of_round_returns [of e "guess_move st g" w] a p
  show "\<exists>st' w'. api_guess e w (GuessStr s) = Inr (Projection (public_state st'), w')
           \<and> session_game w' = Some st'
           \<and> life st' = (if g \<in> set (word st) then life st + 2 else life st - 1)"
    by (auto simp: moves_keep_status)
next
  assume a: "playing_in w st \<and> ANIMALS e \<noteq> []" and h: "hint_accepted e st"
  from a have p: "status (hint_move st (choose_reveal e st)) = Playing"
    by (simp add: playing_in_def moves_keep_status)
  from a h have "api_hint_letter e w = end_of_round e w (hint_move st (choose_reveal e st))"
    by (simp add: api_hint_letter_accepted)
  with end_of_round_returns [of e "hint_move st (choose_reveal e st)" w] a p
  show "\<exists>st' w'. api_hint_letter e w = Inr (Projection (public_state st'), w')
           \<and> session_game w' = Some st' \<and> life st' = life st - 2"
    by (auto simp: moves_keep_status)
qed

theorem life_changes_by_fixed_amounts_witness:
  "playing_in (world_with (round_on ''owl'' 2)) (round_on ''owl'' 2) \<and> ANIMALS env_down \<noteq> []
   \<and> fresh_guess env_down (round_on ''owl'' 2) (ascii '' W'') (of_char CHR ''w'')
   \<and> (\<exists>st' w'. api_guess env_down (world_with (round_on ''owl'' 2)) (GuessStr (ascii '' W''))
                  = Inr (Projection (public_state st'), w')
           \<and> session_game w' = Some st' \<and> life st' = 4)
   \<and> fresh_guess env_down (round_on ''owl'' 2) (ascii ''x'') (of_char CHR ''x'')
   \<and> (\<exists>st' w'. api_guess env_down (world_with (round_on ''owl'' 2)) (GuessStr (ascii ''x''))
                  = Inr (Projection (public_state st'), w')
           \<and> session_game w' = Some st' \<and> life st' = 1)
   \<and> hint_accepted env_down (round_on ''owl'' 2)
   \<and> (\<exists>st' w'. api_hint_letter env_down (world_with (round_on ''owl'' 2))
                  = Inr (Projection (public_state st'), w')
           \<and> session_game w' = Some st' \<and> life st' = 0)"
  using life_changes_by_fixed_amounts [of "world_with (round_on ''owl'' 2)" "round_on ''owl'' 2"
      env_down "ascii '' W''" "of_char CHR ''w''"]
    life_changes_by_fixed_amounts [of "world_with (round_on ''owl'' 2)" "round_on ''owl'' 2"
      env_down "ascii ''x''" "of_char CHR ''x''"]
  by (simp add: concrete_defs)
section \<open>What every run keeps true\<close>

lemma end_of_round_ok:
  assumes "status s = Playing" and "0 \<le> hint_letters_used s"
    and "hint_letters_used s \<le> HINT_LETTER_MAX" and "end_of_round e w s = Inr (r, w')"
  shows "world_ok w'"
proof -
  from end_of_round_saved [OF assms(1,4)] obtain st' where
    "session_game w' = Some st'" "life st' = life s" "(status st' = Failed) = (life s \<le> 0)"
    "hint_letters_used st' = hint_letters_used s \<or> hint_letters_used st' = 0"
    by blast
  with assms(2,3) show ?thesis
    by (auto simp: world_ok_def round_ok_def HINT_LETTER_MAX_def)
qed

lemma advise_ok:
  assumes "round_ok st" and "advise w st m = Inr (r, w')"
  shows "world_ok w'"
  using assms by (auto simp: advise_def world_ok_def round_ok_def Let_def)

lemma api_guess_ok:
  assumes "world_ok w" and "api_guess e w inp = Inr (r, w')"
  shows "world_ok w'"
proof (cases "session_game w")
  case None
  with assms show ?thesis by (simp add: api_guess_def)
next
  case (Some st)
  with assms(1) have ok: "round_ok st" by (simp add: world_ok_def)
  show ?thesis
  proof (cases "status st = Playing")
    case False
    with Some assms show ?thesis by (simp add: api_guess_def)
  next
    case True
    define g where "g = strip e (lower e (case inp of GuessStr s \<Rightarrow> s | _ \<Rightarrow> []))"
    have other: "inp \<noteq> GuessOther"
      using assms(2) Some True by (auto simp: api_guess_def)
    show ?thesis
    proof (cases "length g \<noteq> 1 \<or> \<not> isalpha e g \<or> hd g \<in> set (guessed st) \<or> hd g \<in> set (wrong st)")
      case True
      from api_guess_advises [of w st inp g e] \<open>status st = Playing\<close> Some other True g_def
      obtain m where "api_guess e w inp = advise w st m"
        by (auto simp: playing_in_def advise_def Let_def)
      with assms(2) advise_ok [OF ok] show ?thesis by simp
    next
      case False
      with Some \<open>status st = Playing\<close> other g_def
      have "api_guess e w inp = end_of_round e w (guess_move st (hd g))"
        by (cases inp) (simp_all add: api_guess_def Let_def)
      with assms(2) have "end_of_round e w (guess_move st (hd g)) = Inr (r, w')" by simp
      moreover have "status (guess_move st (hd g)) = Playing"
        "0 \<le> hint_letters_used (guess_move st (hd g))"
        "hint_letters_used (guess_move st (hd g)) \<le> HINT_LETTER_MAX"
        using \<open>status st = Playing\<close> ok by (simp_all add: moves_keep_status round_ok_def)
      ultimately show ?thesis by (rule end_of_round_ok [rotated 3])
    qed
  qed
qed

lemma api_hint_letter_ok:
  assumes "world_ok w" and "api_hint_letter e w = Inr (r, w')"
  shows "world_ok w'"
proof (cases "session_game w")
  case None
  with assms show ?thesis by (simp add: api_hint_letter_def)
next
  case (Some st)
  with assms(1) have ok: "round_ok st" by (simp add: world_ok_def)
  show ?thesis
  proof (cases "status st = Playing")
    case False
    with Some assms show ?thesis by (simp add: api_hint_letter_def)
  next
    case True
    show ?thesis
    proof (cases "hint_accepted e st")
      case False
      with Some True have "api_hint_letter e w = advise w st HintLimit
          \<or> api_hint_letter e w = advise w st NoLettersLeft"
        by (simp add: api_hint_letter_def hint_accepted_def)
      then obtain m where "api_hint_letter e w = advise w st m" by blast
      with assms(2) advise_ok [OF ok] show ?thesis by simp
    next
      case accepted: True
      let ?m = "hint_move st (choose_reveal e st)"
      from api_hint_letter_accepted [of w st e] Some True accepted assms(2)
      have "end_of_round e w ?m = Inr (r, w')" by (simp add: playing_in_def)
      moreover have "status ?m = Playing" "0 \<le> hint_letters_used ?m"
        "hint_letters_used ?m \<le> HINT_LETTER_MAX"
        using True ok accepted
        by (simp_all add: moves_keep_status round_ok_def hint_accepted_def)
      ultimately show ?thesis by (rule end_of_round_ok [rotated 3])
    qed
  qed
qed

lemma api_start_ok:
  assumes "api_start e w = Inr (r, w')"
  shows "world_ok w'"
proof (cases "ANIMALS e = []")
  case True
  with assms show ?thesis by (simp add: api_start_def start_round_none)
next
  case False
  from start_round_ok [OF False, of "WIKI_CACHE w" 1 START_LIFE]
  obtain st wc where "start_round e (WIKI_CACHE w) 1 START_LIFE = Inr (st, wc)"
    and "life st = START_LIFE" "status st = Playing" "hint_letters_used st = 0"
    by blast
  with assms show ?thesis
    by (auto simp: api_start_def world_ok_def round_ok_def START_LIFE_def HINT_LETTER_MAX_def)
qed

lemma handle_ok:
  assumes "world_ok w" and "handle e c w = Inr (r, w')"
  shows "world_ok w'"
proof (cases c)
  case Start
  with assms(2) show ?thesis by (simp add: handle_def api_start_ok)
next
  case Reset
  with assms(2) show ?thesis by (auto simp: handle_def api_reset_def world_ok_def)
next
  case QueryState
  with assms show ?thesis by (auto simp: handle_def api_state_def split: option.splits)
next
  case (Guess inp)
  with assms show ?thesis by (simp add: handle_def api_guess_ok)
next
  case HintLetter
  with assms show ?thesis by (simp add: handle_def api_hint_letter_ok)
qed

lemma step_ok:
  assumes "world_ok w"
  shows "world_ok (step w ec)"
proof (cases "handle (fst ec) (snd ec) w")
  case (Inl err)
  with assms show ?thesis by (simp add: step_def)
next
  case (Inr rw)
  obtain r w' where rw: "rw = (r, w')" by (cases rw)
  from handle_ok [OF assms] Inr rw have "world_ok w'" by simp
  with Inr rw show ?thesis by (simp add: step_def)
qed

lemma foldl_step_ok: "world_ok w \<Longrightarrow> world_ok (foldl step w cs)"
  by (induction cs arbitrary: w) (simp_all add: step_ok)

lemma run_ok: "world_ok (run cs)"
  unfolding run_def by (rule foldl_step_ok) (simp add: world_ok_def initial_world_def)

section \<open>Failure\<close>

lemma reveal_of_moves:
  "reveal_th e c (guess_move s g) = reveal_th e c s"
  "reveal_about_en e (guess_move s g) = reveal_about_en e s"
  "reveal_about_th e c (guess_move s g) = reveal_about_th e c s"
  "reveal_th e c (hint_move s r) = reveal_th e c s"
  "reveal_about_en e (hint_move s r) = reveal_about_en e s"
  "reveal_about_th e c (hint_move s r) = reveal_about_th e c s"
  by (simp_all add: reveal_th_def reveal_about_en_def reveal_about_th_def about_text_def
      guess_move_def hint_move_def)

lemma end_of_round_failed_fields:
  assumes "life m \<le> 0"
  shows "\<exists>st' w'. end_of_round e w m = Inr (Projection (public_state st'), w')
           \<and> session_game w' = Some st' \<and> status st' = Failed \<and> life st' = life m
           \<and> word st' = word m \<and> stage st' = stage m
           \<and> guessed st' = guessed m \<and> hint_letters_used st' = hint_letters_used m
           \<and> last_en st' = word m \<and> last_th st' = reveal_th e (TRANSLATE_CACHE w) m
           \<and> last_about_en st' = reveal_about_en e m
           \<and> last_about_th st' = reveal_about_th e (TRANSLATE_CACHE w) m"
proof -
  from end_of_round_failed [OF assms, of e w] obtain tc where
    "end_of_round e w m =
           Inr (Projection (public_state
                  (m\<lparr>status := Failed, last_en := word m,
                     last_th := reveal_th e (TRANSLATE_CACHE w) m,
                     last_about_en := reveal_about_en e m,
                     last_about_th := reveal_about_th e (TRANSLATE_CACHE w) m,
                     message := GameOver (word m) (reveal_th e (TRANSLATE_CACHE w) m)\<rparr>)),
                w\<lparr>session_game := Some
                  (m\<lparr>status := Failed, last_en := word m,
                     last_th := reveal_th e (TRANSLATE_CACHE w) m,
                     last_about_en := reveal_about_en e m,
                     last_about_th := reveal_about_th e (TRANSLATE_CACHE w) m,
                     message := GameOver (word m) (reveal_th e (TRANSLATE_CACHE w) m)\<rparr>),
                  TRANSLATE_CACHE := tc\<rparr>)"
    by blast
  then show ?thesis by simp
qed

lemmas run_defs = run_def initial_world_def step_def handle_def api_start_def START_LIFE_def
  start_round_def pick_word_def wikipedia_summary_def empty_info_def api_hint_letter_def
  api_guess_def choose_reveal_def hint_move_def guess_move_def end_of_round_def
  word_cleared_def capture_reveal_def about_text_def translate_to_th_def mymemory_path_def
  HINT_LETTER_COST_def advise_def Let_def

lemma doomed: "map_option (\<lambda>st. (status st, life st)) (session_game (run doomed_run)) = Some (Failed, 0)"
  by (simp add: doomed_run_def run_defs concrete_defs)

text \<open>
  C1. After every run of requests from the start of the process, the saved round has
  status Failed exactly when its life is at most 0. And the failure test comes first:
  on a round in progress, a fresh valid guess or an accepted hint that brings life to
  0 or below is answered with the projection of the saved round, which is that round
  with status Failed and the reveal fields captured from its word, whether or not the
  same move completed the word.
\<close>

theorem failed_iff_life_used_up:
  "(session_game (run cs) = Some st \<longrightarrow> (status st = Failed) = (life st \<le> 0))
   \<and> (playing_in w s \<and> fresh_guess e s i g
        \<and> (if g \<in> set (word s) then life s + 2 else life s - 1) \<le> 0 \<longrightarrow>
        (\<exists>st' w'. api_guess e w (GuessStr i) = Inr (Projection (public_state st'), w')
           \<and> session_game w' = Some st' \<and> status st' = Failed
           \<and> life st' = (if g \<in> set (word s) then life s + 2 else life s - 1)
           \<and> word st' = word s \<and> last_en st' = word s
           \<and> last_th st' = reveal_th e (TRANSLATE_CACHE w) s
           \<and> last_about_en st' = reveal_about_en e s
           \<and> last_about_th st' = reveal_about_th e (TRANSLATE_CACHE w) s))
   \<and> (playing_in w s \<and> hint_accepted e s \<and> life s - 2 \<le> 0 \<longrightarrow>
        (\<exists>st' w'. api_hint_letter e w = Inr (Projection (public_state st'), w')
           \<and> session_game w' = Some st' \<and> status st' = Failed
           \<and> life st' = life s - 2
           \<and> word st' = word s \<and> last_en st' = word s
           \<and> last_th st' = reveal_th e (TRANSLATE_CACHE w) s
           \<and> last_about_en st' = reveal_about_en e s
           \<and> last_about_th st' = reveal_about_th e (TRANSLATE_CACHE w) s))"
proof (intro conjI impI)
  assume "session_game (run cs) = Some st"
  with run_ok [of cs] show "(status st = Failed) = (life st \<le> 0)"
    by (simp add: world_ok_def round_ok_def)
next
  assume a: "playing_in w s \<and> fresh_guess e s i g
        \<and> (if g \<in> set (word s) then life s + 2 else life s - 1) \<le> 0"
  let ?m = "guess_move s g"
  from a have "life ?m \<le> 0" by (simp add: moves_keep_status)
  from end_of_round_failed_fields [OF this, of e w] obtain st' w' where
    r: "end_of_round e w ?m = Inr (Projection (public_state st'), w')"
      "session_game w' = Some st'" "status st' = Failed" "life st' = life ?m"
      "word st' = word ?m" "last_en st' = word ?m"
      "last_th st' = reveal_th e (TRANSLATE_CACHE w) ?m"
      "last_about_en st' = reveal_about_en e ?m"
      "last_about_th st' = reveal_about_th e (TRANSLATE_CACHE w) ?m"
    by blast
  from a have h: "api_guess e w (GuessStr i) = end_of_round e w ?m"
    by (simp add: api_guess_fresh)
  have "api_guess e w (GuessStr i) = Inr (Projection (public_state st'), w')
           \<and> session_game w' = Some st' \<and> status st' = Failed
           \<and> life st' = (if g \<in> set (word s) then life s + 2 else life s - 1)
           \<and> word st' = word s \<and> last_en st' = word s
           \<and> last_th st' = reveal_th e (TRANSLATE_CACHE w) s
           \<and> last_about_en st' = reveal_about_en e s
           \<and> last_about_th st' = reveal_about_th e (TRANSLATE_CACHE w) s"
    using r h by (simp add: reveal_of_moves moves_keep_status)
  then show "\<exists>st' w'. api_guess e w (GuessStr i) = Inr (Projection (public_state st'), w')
           \<and> session_game w' = Some st' \<and> status st' = Failed
           \<and> life st' = (if g \<in> set (word s) then life s + 2 else life s - 1)
           \<and> word st' = word s \<and> last_en st' = word s
           \<and> last_th st' = reveal_th e (TRANSLATE_CACHE w) s
           \<and> last_about_en st' = reveal_about_en e s
           \<and> last_about_th st' = reveal_about_th e (TRANSLATE_CACHE w) s"
    by blast
next
  assume a: "playing_in w s \<and> hint_accepted e s \<and> life s - 2 \<le> 0"
  let ?m = "hint_move s (choose_reveal e s)"
  from a have "life ?m \<le> 0" by (simp add: moves_keep_status)
  from end_of_round_failed_fields [OF this, of e w] obtain st' w' where
    r: "end_of_round e w ?m = Inr (Projection (public_state st'), w')"
      "session_game w' = Some st'" "status st' = Failed" "life st' = life ?m"
      "word st' = word ?m" "last_en st' = word ?m"
      "last_th st' = reveal_th e (TRANSLATE_CACHE w) ?m"
      "last_about_en st' = reveal_about_en e ?m"
      "last_about_th st' = reveal_about_th e (TRANSLATE_CACHE w) ?m"
    by blast
  from a have h: "api_hint_letter e w = end_of_round e w ?m"
    by (simp add: api_hint_letter_accepted)
  have "api_hint_letter e w = Inr (Projection (public_state st'), w')
           \<and> session_game w' = Some st' \<and> status st' = Failed
           \<and> life st' = life s - 2
           \<and> word st' = word s \<and> last_en st' = word s
           \<and> last_th st' = reveal_th e (TRANSLATE_CACHE w) s
           \<and> last_about_en st' = reveal_about_en e s
           \<and> last_about_th st' = reveal_about_th e (TRANSLATE_CACHE w) s"
    using r h by (simp add: reveal_of_moves moves_keep_status)
  then show "\<exists>st' w'. api_hint_letter e w = Inr (Projection (public_state st'), w')
           \<and> session_game w' = Some st' \<and> status st' = Failed
           \<and> life st' = life s - 2
           \<and> word st' = word s \<and> last_en st' = word s
           \<and> last_th st' = reveal_th e (TRANSLATE_CACHE w) s
           \<and> last_about_en st' = reveal_about_en e s
           \<and> last_about_th st' = reveal_about_th e (TRANSLATE_CACHE w) s"
    by blast
qed

theorem failed_iff_life_used_up_witness:
  "map_option status (session_game (run doomed_run)) = Some Failed
   \<and> map_option life (session_game (run doomed_run)) = Some 0
   \<and> playing_in (world_with (round_on ''dog'' 1)) (round_on ''dog'' 1)
   \<and> fresh_guess env_up (round_on ''dog'' 1) (ascii ''x'') (of_char CHR ''x'')
   \<and> (\<exists>st' w'. api_guess env_up (world_with (round_on ''dog'' 1)) (GuessStr (ascii ''x''))
                  = Inr (Projection (public_state st'), w')
         \<and> session_game w' = Some st' \<and> status st' = Failed \<and> life st' = 0
         \<and> last_en st' = ascii ''dog'' \<and> last_th st' = ascii ''th:dog''
         \<and> last_about_en st' = ascii ''animal'' \<and> last_about_th st' = ascii ''th:animal'')
   \<and> playing_in (world_with ox_with_o) ox_with_o \<and> hint_accepted env_up ox_with_o
   \<and> word_cleared (hint_move ox_with_o (choose_reveal env_up ox_with_o))
   \<and> (\<exists>st' w'. api_hint_letter env_up (world_with ox_with_o)
                  = Inr (Projection (public_state st'), w')
         \<and> session_game w' = Some st' \<and> status st' = Failed \<and> life st' = 0
         \<and> last_en st' = ascii ''ox'' \<and> last_th st' = ascii ''th:ox'')"
proof -
  let ?dog = "round_on ''dog'' 1"
  have run: "map_option status (session_game (run doomed_run)) = Some Failed
      \<and> map_option life (session_game (run doomed_run)) = Some 0"
    using failed_iff_life_used_up [where cs = doomed_run
        and st = "the (session_game (run doomed_run))" and w = "world_with ?dog" and s = ?dog
        and i = "ascii ''x''" and g = "of_char CHR ''x''" and e = env_up] doomed
    by auto
  have pg: "playing_in (world_with ?dog) ?dog \<and> fresh_guess env_up ?dog (ascii ''x'') (of_char CHR ''x'')
      \<and> (if of_char CHR ''x'' \<in> set (word ?dog) then life ?dog + 2 else life ?dog - 1) \<le> 0"
    by (simp add: concrete_defs)
  have vg: "reveal_th env_up (TRANSLATE_CACHE (world_with ?dog)) ?dog = ascii ''th:dog''"
    "reveal_about_en env_up ?dog = ascii ''animal''"
    "reveal_about_th env_up (TRANSLATE_CACHE (world_with ?dog)) ?dog = ascii ''th:animal''"
    "(if of_char CHR ''x'' \<in> set (word ?dog) then life ?dog + 2 else life ?dog - 1) = 0"
    by (simp_all add: concrete_defs reveal_th_def reveal_about_en_def reveal_about_th_def
        about_text_def translate_to_th_def Let_def)
  have g: "\<exists>st' w'. api_guess env_up (world_with ?dog) (GuessStr (ascii ''x''))
                  = Inr (Projection (public_state st'), w')
         \<and> session_game w' = Some st' \<and> status st' = Failed \<and> life st' = 0
         \<and> last_en st' = word ?dog \<and> last_th st' = ascii ''th:dog''
         \<and> last_about_en st' = ascii ''animal'' \<and> last_about_th st' = ascii ''th:animal''"
    using failed_iff_life_used_up [where cs = doomed_run
        and st = "the (session_game (run doomed_run))" and w = "world_with ?dog" and s = ?dog
        and i = "ascii ''x''" and g = "of_char CHR ''x''" and e = env_up] pg
    unfolding vg by blast
  have ph: "playing_in (world_with ox_with_o) ox_with_o \<and> hint_accepted env_up ox_with_o
      \<and> life ox_with_o - 2 \<le> 0"
    by (simp add: concrete_defs ox_with_o_def)
  have vh: "reveal_th env_up (TRANSLATE_CACHE (world_with ox_with_o)) ox_with_o = ascii ''th:ox''"
    "life ox_with_o - 2 = 0"
    by (simp_all add: concrete_defs ox_with_o_def reveal_th_def translate_to_th_def Let_def)
  have h: "\<exists>st' w'. api_hint_letter env_up (world_with ox_with_o)
                  = Inr (Projection (public_state st'), w')
         \<and> session_game w' = Some st' \<and> status st' = Failed \<and> life st' = 0
         \<and> last_en st' = word ox_with_o \<and> last_th st' = ascii ''th:ox''"
    using failed_iff_life_used_up [where cs = doomed_run
        and st = "the (session_game (run doomed_run))" and w = "world_with ox_with_o"
        and s = ox_with_o and i = "ascii ''x''" and g = "of_char CHR ''x''" and e = env_up] ph
    unfolding vh by blast
  have c: "word_cleared (hint_move ox_with_o (choose_reveal env_up ox_with_o))"
    by (simp add: concrete_defs ox_with_o_def choose_reveal_def hint_move_def word_cleared_def)
  have w: "word ?dog = ascii ''dog''" "word ox_with_o = ascii ''ox''"
    by (simp_all add: round_on_def ox_with_o_def)
  from run pg g ph h c show ?thesis unfolding w by blast
qed

section \<open>Clearing a word\<close>

lemma end_of_round_cleared_fields:
  assumes "0 < life m" and "word_cleared m" and "ANIMALS e \<noteq> []"
  shows "\<exists>nxt w'. end_of_round e w m = Inr (Projection (public_state nxt), w')
         \<and> session_game w' = Some nxt
         \<and> stage nxt = stage m + 1 \<and> life nxt = life m
         \<and> guessed nxt = [] \<and> wrong nxt = [] \<and> hint_letters_used nxt = 0
         \<and> status nxt = Playing
         \<and> word nxt = ANIMALS e ! (rand_word e mod length (ANIMALS e))
         \<and> last_en nxt = word m
         \<and> last_th nxt = reveal_th e (TRANSLATE_CACHE w) m
         \<and> last_about_en nxt = reveal_about_en e m
         \<and> last_about_th nxt = reveal_about_th e (TRANSLATE_CACHE w) m"
proof -
  from end_of_round_cleared [OF assms, of w] obtain nxt tc wc where
    "end_of_round e w m =
           Inr (Projection (public_state nxt),
                w\<lparr>session_game := Some nxt, TRANSLATE_CACHE := tc, WIKI_CACHE := wc\<rparr>)"
    and "stage nxt = stage m + 1 \<and> life nxt = life m
         \<and> guessed nxt = [] \<and> wrong nxt = [] \<and> hint_letters_used nxt = 0
         \<and> status nxt = Playing
         \<and> word nxt = ANIMALS e ! (rand_word e mod length (ANIMALS e))
         \<and> last_en nxt = word m
         \<and> last_th nxt = reveal_th e (TRANSLATE_CACHE w) m
         \<and> last_about_en nxt = reveal_about_en e m
         \<and> last_about_th nxt = reveal_about_th e (TRANSLATE_CACHE w) m"
    by blast
  then have "end_of_round e w m = Inr (Projection (public_state nxt),
                w\<lparr>session_game := Some nxt, TRANSLATE_CACHE := tc, WIKI_CACHE := wc\<rparr>)
         \<and> session_game (w\<lparr>session_game := Some nxt, TRANSLATE_CACHE := tc, WIKI_CACHE := wc\<rparr>)
             = Some nxt
         \<and> stage nxt = stage m + 1 \<and> life nxt = life m
         \<and> guessed nxt = [] \<and> wrong nxt = [] \<and> hint_letters_used nxt = 0
         \<and> status nxt = Playing
         \<and> word nxt = ANIMALS e ! (rand_word e mod length (ANIMALS e))
         \<and> last_en nxt = word m
         \<and> last_th nxt = reveal_th e (TRANSLATE_CACHE w) m
         \<and> last_about_en nxt = reveal_about_en e m
         \<and> last_about_th nxt = reveal_about_th e (TRANSLATE_CACHE w) m"
    by simp
  then show ?thesis by blast
qed

text \<open>
  C3. On a round in progress (and a non-empty word list), a fresh valid guess or an
  accepted hint after which every letter of the word is guessed and life is still
  above 0 is answered with the projection of the saved round, and that round is a
  fresh one: its stage is the old stage plus 1, its life is the life the move left,
  its word is a new draw, \<open>guessed\<close> and \<open>wrong\<close> are empty, the hint count is 0, the
  status is Playing, and its four reveal fields are the values captured from the word
  just cleared.
\<close>

theorem cleared_round_restarts:
  "playing_in w s \<and> ANIMALS e \<noteq> [] \<longrightarrow>
     (fresh_guess e s i g \<and> word_cleared (guess_move s g)
        \<and> 0 < (if g \<in> set (word s) then life s + 2 else life s - 1) \<longrightarrow>
        (\<exists>nxt w'. api_guess e w (GuessStr i) = Inr (Projection (public_state nxt), w')
           \<and> session_game w' = Some nxt
           \<and> stage nxt = stage s + 1
           \<and> life nxt = (if g \<in> set (word s) then life s + 2 else life s - 1)
           \<and> guessed nxt = [] \<and> wrong nxt = [] \<and> hint_letters_used nxt = 0
           \<and> status nxt = Playing
           \<and> word nxt = ANIMALS e ! (rand_word e mod length (ANIMALS e))
           \<and> last_en nxt = word s
           \<and> last_th nxt = reveal_th e (TRANSLATE_CACHE w) s
           \<and> last_about_en nxt = reveal_about_en e s
           \<and> last_about_th nxt = reveal_about_th e (TRANSLATE_CACHE w) s))
     \<and> (hint_accepted e s \<and> word_cleared (hint_move s (choose_reveal e s))
        \<and> 0 < life s - 2 \<longrightarrow>
        (\<exists>nxt w'. api_hint_letter e w = Inr (Projection (public_state nxt), w')
           \<and> session_game w' = Some nxt
           \<and> stage nxt = stage s + 1
           \<and> life nxt = life s - 2
           \<and> guessed nxt = [] \<and> wrong nxt = [] \<and> hint_letters_used nxt = 0
           \<and> status nxt = Playing
           \<and> word nxt = ANIMALS e ! (rand_word e mod length (ANIMALS e))
           \<and> last_en nxt = word s
           \<and> last_th nxt = reveal_th e (TRANSLATE_CACHE w) s
           \<and> last_about_en nxt = reveal_about_en e s
           \<and> last_about_th nxt = reveal_about_th e (TRANSLATE_CACHE w) s))"
proof (intro conjI impI)
  assume a: "playing_in w s \<and> ANIMALS e \<noteq> []"
    and b: "fresh_guess e s i g \<and> word_cleared (guess_move s g)
        \<and> 0 < (if g \<in> set (word s) then life s + 2 else life s - 1)"
  let ?m = "guess_move s g"
  from b have "0 < life ?m" "word_cleared ?m" by (simp_all add: moves_keep_status)
  moreover from a have "ANIMALS e \<noteq> []" by simp
  ultimately have "\<exists>nxt w'. end_of_round e w ?m = Inr (Projection (public_state nxt), w')
         \<and> session_game w' = Some nxt
         \<and> stage nxt = stage ?m + 1 \<and> life nxt = life ?m
         \<and> guessed nxt = [] \<and> wrong nxt = [] \<and> hint_letters_used nxt = 0
         \<and> status nxt = Playing
         \<and> word nxt = ANIMALS e ! (rand_word e mod length (ANIMALS e))
         \<and> last_en nxt = word ?m
         \<and> last_th nxt = reveal_th e (TRANSLATE_CACHE w) ?m
         \<and> last_about_en nxt = reveal_about_en e ?m
         \<and> last_about_th nxt = reveal_about_th e (TRANSLATE_CACHE w) ?m"
    by (rule end_of_round_cleared_fields)
  moreover from a b have "api_guess e w (GuessStr i) = end_of_round e w ?m"
    by (simp add: api_guess_fresh)
  ultimately show "\<exists>nxt w'. api_guess e w (GuessStr i) = Inr (Projection (public_state nxt), w')
           \<and> session_game w' = Some nxt
           \<and> stage nxt = stage s + 1
           \<and> life nxt = (if g \<in> set (word s) then life s + 2 else life s - 1)
           \<and> guessed nxt = [] \<and> wrong nxt = [] \<and> hint_letters_used nxt = 0
           \<and> status nxt = Playing
           \<and> word nxt = ANIMALS e ! (rand_word e mod length (ANIMALS e))
           \<and> last_en nxt = word s
           \<and> last_th nxt = reveal_th e (TRANSLATE_CACHE w) s
           \<and> last_about_en nxt = reveal_about_en e s
           \<and> last_about_th nxt = reveal_about_th e (TRANSLATE_CACHE w) s"
    unfolding reveal_of_moves moves_keep_status by simp
next
  assume a: "playing_in w s \<and> ANIMALS e \<noteq> []"
    and b: "hint_accepted e s \<and> word_cleared (hint_move s (choose_reveal e s))
        \<and> 0 < life s - 2"
  let ?m = "hint_move s (choose_reveal e s)"
  from b have "0 < life ?m" "word_cleared ?m" by (simp_all add: moves_keep_status)
  moreover from a have "ANIMALS e \<noteq> []" by simp
  ultimately have "\<exists>nxt w'. end_of_round e w ?m = Inr (Projection (public_state nxt), w')
         \<and> session_game w' = Some nxt
         \<and> stage nxt = stage ?m + 1 \<and> life nxt = life ?m
         \<and> guessed nxt = [] \<and> wrong nxt = [] \<and> hint_letters_used nxt = 0
         \<and> status nxt = Playing
         \<and> word nxt = ANIMALS e ! (rand_word e mod length (ANIMALS e))
         \<and> last_en nxt = word ?m
         \<and> last_th nxt = reveal_th e (TRANSLATE_CACHE w) ?m
         \<and> last_about_en nxt = reveal_about_en e ?m
         \<and> last_about_th nxt = reveal_about_th e (TRANSLATE_CACHE w) ?m"
    by (rule end_of_round_cleared_fields)
  moreover from a b have "api_hint_letter e w = end_of_round e w ?m"
    by (simp add: api_hint_letter_accepted)
  ultimately show "\<exists>nxt w'. api_hint_letter e w = Inr (Projection (public_state nxt), w')
           \<and> session_game w' = Some nxt
           \<and> stage nxt = stage s + 1
           \<and> life nxt = life s - 2
           \<and> guessed nxt = [] \<and> wrong nxt = [] \<and> hint_letters_used nxt = 0
           \<and> status nxt = Playing
           \<and> word nxt = ANIMALS e ! (rand_word e mod length (ANIMALS e))
           \<and> last_en nxt = word s
           \<and> last_th nxt = reveal_th e (TRANSLATE_CACHE w) s
           \<and> last_about_en nxt = reveal_about_en e s
           \<and> last_about_th nxt = reveal_about_th e (TRANSLATE_CACHE w) s"
    unfolding reveal_of_moves moves_keep_status by simp
qed

theorem cleared_round_restarts_witness:
  "playing_in (world_with cat_with_ac) cat_with_ac \<and> ANIMALS env_up \<noteq> []
   \<and> fresh_guess env_up cat_with_ac (ascii ''T'') (of_char CHR ''t'')
   \<and> word_cleared (guess_move cat_with_ac (of_char CHR ''t''))
   \<and> (\<exists>nxt w'. api_guess env_up (world_with cat_with_ac) (GuessStr (ascii ''T''))
                   = Inr (Projection (public_state nxt), w')
         \<and> session_game w' = Some nxt \<and> stage nxt = 2 \<and> life nxt = 13
         \<and> guessed nxt = [] \<and> wrong nxt = [] \<and> hint_letters_used nxt = 0
         \<and> status nxt = Playing \<and> word nxt = ascii ''dog''
         \<and> last_en nxt = ascii ''cat'' \<and> last_th nxt = ascii ''th:cat''
         \<and> last_about_en nxt = ascii ''animal'' \<and> last_about_th nxt = ascii ''th:animal'')
   \<and> playing_in (world_with owl_with_ow) owl_with_ow \<and> hint_accepted env_up owl_with_ow
   \<and> word_cleared (hint_move owl_with_ow (choose_reveal env_up owl_with_ow))
   \<and> (\<exists>nxt w'. api_hint_letter env_up (world_with owl_with_ow)
                   = Inr (Projection (public_state nxt), w')
         \<and> session_game w' = Some nxt \<and> stage nxt = 2 \<and> life nxt = 6
         \<and> guessed nxt = [] \<and> wrong nxt = [] \<and> hint_letters_used nxt = 0
         \<and> status nxt = Playing \<and> word nxt = ascii ''dog''
         \<and> last_en nxt = ascii ''owl'' \<and> last_th nxt = ascii ''th:owl''
         \<and> last_about_en nxt = ascii ''animal'' \<and> last_about_th nxt = ascii ''th:animal'')"
proof -
  have pg: "playing_in (world_with cat_with_ac) cat_with_ac \<and> ANIMALS env_up \<noteq> []"
    "fresh_guess env_up cat_with_ac (ascii ''T'') (of_char CHR ''t'') \<and> word_cleared (guess_move cat_with_ac (of_char CHR ''t''))
      \<and> 0 < (if of_char CHR ''t'' \<in> set (word cat_with_ac) then life cat_with_ac + 2
             else life cat_with_ac - 1)"
    by (simp_all add: concrete_defs cat_with_ac_def guess_move_def word_cleared_def)
  have vg: "stage cat_with_ac + 1 = 2"
    "(if of_char CHR ''t'' \<in> set (word cat_with_ac) then life cat_with_ac + 2
      else life cat_with_ac - 1) = 13"
    "ANIMALS env_up ! (rand_word env_up mod length (ANIMALS env_up)) = ascii ''dog''"
    "reveal_th env_up (TRANSLATE_CACHE (world_with cat_with_ac)) cat_with_ac = ascii ''th:cat''"
    "reveal_about_en env_up cat_with_ac = ascii ''animal''"
    "reveal_about_th env_up (TRANSLATE_CACHE (world_with cat_with_ac)) cat_with_ac = ascii ''th:animal''"
    by (simp_all add: concrete_defs cat_with_ac_def reveal_th_def reveal_about_en_def
        reveal_about_th_def about_text_def translate_to_th_def Let_def)
  have g: "\<exists>nxt w'. api_guess env_up (world_with cat_with_ac) (GuessStr (ascii ''T''))
                   = Inr (Projection (public_state nxt), w')
         \<and> session_game w' = Some nxt \<and> stage nxt = 2 \<and> life nxt = 13
         \<and> guessed nxt = [] \<and> wrong nxt = [] \<and> hint_letters_used nxt = 0
         \<and> status nxt = Playing \<and> word nxt = ascii ''dog''
         \<and> last_en nxt = word cat_with_ac \<and> last_th nxt = ascii ''th:cat''
         \<and> last_about_en nxt = ascii ''animal'' \<and> last_about_th nxt = ascii ''th:animal''"
    using cleared_round_restarts [of "world_with cat_with_ac" cat_with_ac env_up "ascii ''T''"
        "of_char CHR ''t''"] pg
    unfolding vg by blast
  have ph: "playing_in (world_with owl_with_ow) owl_with_ow \<and> ANIMALS env_up \<noteq> []"
    "hint_accepted env_up owl_with_ow
      \<and> word_cleared (hint_move owl_with_ow (choose_reveal env_up owl_with_ow))
      \<and> 0 < life owl_with_ow - 2"
    by (simp_all add: concrete_defs owl_with_ow_def choose_reveal_def hint_move_def
        word_cleared_def)
  have vh: "stage owl_with_ow + 1 = 2" "life owl_with_ow - 2 = 6"
    "ANIMALS env_up ! (rand_word env_up mod length (ANIMALS env_up)) = ascii ''dog''"
    "reveal_th env_up (TRANSLATE_CACHE (world_with owl_with_ow)) owl_with_ow = ascii ''th:owl''"
    "reveal_about_en env_up owl_with_ow = ascii ''animal''"
    "reveal_about_th env_up (TRANSLATE_CACHE (world_with owl_with_ow)) owl_with_ow = ascii ''th:animal''"
    by (simp_all add: concrete_defs owl_with_ow_def reveal_th_def reveal_about_en_def
        reveal_about_th_def about_text_def translate_to_th_def Let_def)
  have h: "\<exists>nxt w'. api_hint_letter env_up (world_with owl_with_ow)
                   = Inr (Projection (public_state nxt), w')
         \<and> session_game w' = Some nxt \<and> stage nxt = 2 \<and> life nxt = 6
         \<and> guessed nxt = [] \<and> wrong nxt = [] \<and> hint_letters_used nxt = 0
         \<and> status nxt = Playing \<and> word nxt = ascii ''dog''
         \<and> last_en nxt = word owl_with_ow \<and> last_th nxt = ascii ''th:owl''
         \<and> last_about_en nxt = ascii ''animal'' \<and> last_about_th nxt = ascii ''th:animal''"
    using cleared_round_restarts [of "world_with owl_with_ow" owl_with_ow env_up "ascii ''T''"
        "of_char CHR ''t''"] ph
    unfolding vh by blast
  have w: "word cat_with_ac = ascii ''cat''" "word owl_with_ow = ascii ''owl''"
    by (simp_all add: round_on_def cat_with_ac_def owl_with_ow_def)
  from pg g ph h show ?thesis unfolding w by blast
qed

section \<open>Hints\<close>

lemma set_sorted_list: "set (sorted_list xs) = set xs"
  by (simp add: sorted_list_def)

lemma set_remaining:
  "set (remaining e s) = {c \<in> set (word s). isalpha e [c] \<and> c \<notin> set (guessed s)}"
  by (auto simp: remaining_def set_sorted_list)

lemma choose_reveal_remaining:
  assumes "remaining e s \<noteq> []"
  shows "choose_reveal e s \<in> set (remaining e s)"
  using assms by (simp add: choose_reveal_def)

lemma choose_reveal_new:
  assumes "hint_accepted e s"
  shows "choose_reveal e s \<in> set (word s) \<and> choose_reveal e s \<notin> set (guessed s)"
proof -
  from assms have "remaining e s \<noteq> []" by (simp add: hint_accepted_def)
  from choose_reveal_remaining [OF this] show ?thesis by (simp add: set_remaining)
qed

lemma hint_limit_rejects:
  assumes "playing_in w s" and "HINT_LETTER_MAX \<le> hint_letters_used s"
  shows "api_hint_letter e w =
           Inr (Projection (public_state (s\<lparr>message := HintLimit\<rparr>)),
                w\<lparr>session_game := Some (s\<lparr>message := HintLimit\<rparr>)\<rparr>)"
  using assms by (simp add: api_hint_letter_def playing_in_def advise_def Let_def)

lemma hint_not_clearing:
  assumes "playing_in w s" and "hint_accepted e s"
    and "\<not> (0 < life s - 2 \<and> word_cleared (hint_move s (choose_reveal e s)))"
  shows "\<exists>st' w'. api_hint_letter e w = Inr (Projection (public_state st'), w')
           \<and> session_game w' = Some st'
           \<and> guessed st' = sorted_list (choose_reveal e s # guessed s)
           \<and> hint_letters_used st' = hint_letters_used s + 1
           \<and> life st' = life s - 2 \<and> word st' = word s"
proof -
  let ?m = "hint_move s (choose_reveal e s)"
  have h: "api_hint_letter e w = end_of_round e w ?m"
    using assms(1,2) by (rule api_hint_letter_accepted)
  have m: "guessed ?m = sorted_list (choose_reveal e s # guessed s)"
    "hint_letters_used ?m = hint_letters_used s + 1" "life ?m = life s - 2" "word ?m = word s"
    by (simp_all add: hint_move_def HINT_LETTER_COST_def)
  show ?thesis
  proof (cases "life ?m \<le> 0")
    case True
    from end_of_round_failed_fields [OF True, of e w] show ?thesis
      unfolding h m by blast
  next
    case False
    with assms(3) m have "0 < life ?m" "\<not> word_cleared ?m" by simp_all
    from end_of_round_continues [OF this, of e w]
    have "api_hint_letter e w = Inr (Projection (public_state ?m), w\<lparr>session_game := Some ?m\<rparr>)
        \<and> session_game (w\<lparr>session_game := Some ?m\<rparr>) = Some ?m"
      by (simp add: h)
    with m show ?thesis by metis
  qed
qed

text \<open>
  C5. On a round in progress, a hint asked when the hint count is at least
  \<open>HINT_LETTER_MAX\<close> changes nothing but the message. After every run of requests the
  hint count of the saved round lies between 0 and 2. An accepted hint picks a letter
  of the word that is not in \<open>guessed\<close>; its move (lines 296 to 302) adds exactly that
  letter to \<open>guessed\<close>, adds 1 to the hint count and takes 2 from life, and the
  end-of-round test then runs on the result. Unless the hint cleared the word with
  life left (when the fresh round of C3 is saved instead), the saved round shows these
  three changes.
\<close>

theorem hint_limit_and_effect:
  "(playing_in w s \<and> HINT_LETTER_MAX \<le> hint_letters_used s \<longrightarrow>
      api_hint_letter e w =
        Inr (Projection (public_state (s\<lparr>message := HintLimit\<rparr>)),
             w\<lparr>session_game := Some (s\<lparr>message := HintLimit\<rparr>)\<rparr>))
   \<and> (session_game (run cs) = Some st \<longrightarrow>
        0 \<le> hint_letters_used st \<and> hint_letters_used st \<le> 2)
   \<and> (playing_in w s \<and> hint_accepted e s \<longrightarrow>
        choose_reveal e s \<in> set (word s) \<and> choose_reveal e s \<notin> set (guessed s)
        \<and> api_hint_letter e w = end_of_round e w (hint_move s (choose_reveal e s))
        \<and> set (guessed (hint_move s (choose_reveal e s)))
            = insert (choose_reveal e s) (set (guessed s))
        \<and> hint_letters_used (hint_move s (choose_reveal e s)) = hint_letters_used s + 1
        \<and> life (hint_move s (choose_reveal e s)) = life s - 2
        \<and> (\<not> (0 < life s - 2 \<and> word_cleared (hint_move s (choose_reveal e s))) \<longrightarrow>
            (\<exists>st' w'. api_hint_letter e w = Inr (Projection (public_state st'), w')
               \<and> session_game w' = Some st'
               \<and> guessed st' = sorted_list (choose_reveal e s # guessed s)
               \<and> hint_letters_used st' = hint_letters_used s + 1
               \<and> life st' = life s - 2 \<and> word st' = word s)))"
proof (intro conjI impI)
  assume "playing_in w s \<and> HINT_LETTER_MAX \<le> hint_letters_used s"
  then show "api_hint_letter e w =
        Inr (Projection (public_state (s\<lparr>message := HintLimit\<rparr>)),
             w\<lparr>session_game := Some (s\<lparr>message := HintLimit\<rparr>)\<rparr>)"
    by (simp add: hint_limit_rejects)
next
  assume "session_game (run cs) = Some st"
  with run_ok [of cs] show "0 \<le> hint_letters_used st" "hint_letters_used st \<le> 2"
    by (simp_all add: world_ok_def round_ok_def HINT_LETTER_MAX_def)
next
  assume a: "playing_in w s \<and> hint_accepted e s"
  then show "choose_reveal e s \<in> set (word s)" "choose_reveal e s \<notin> set (guessed s)"
    using choose_reveal_new [of e s] by simp_all
  from a show "api_hint_letter e w = end_of_round e w (hint_move s (choose_reveal e s))"
    by (simp add: api_hint_letter_accepted)
  show "set (guessed (hint_move s (choose_reveal e s)))
            = insert (choose_reveal e s) (set (guessed s))"
    by (simp add: hint_move_def set_sorted_list)
  show "hint_letters_used (hint_move s (choose_reveal e s)) = hint_letters_used s + 1"
    "life (hint_move s (choose_reveal e s)) = life s - 2"
    by (simp_all add: moves_keep_status)
  assume "\<not> (0 < life s - 2 \<and> word_cleared (hint_move s (choose_reveal e s)))"
  with a show "\<exists>st' w'. api_hint_letter e w = Inr (Projection (public_state st'), w')
               \<and> session_game w' = Some st'
               \<and> guessed st' = sorted_list (choose_reveal e s # guessed s)
               \<and> hint_letters_used st' = hint_letters_used s + 1
               \<and> life st' = life s - 2 \<and> word st' = word s"
    using hint_not_clearing [of w s e] by simp
qed

theorem hint_limit_and_effect_witness:
  "playing_in (world_with owl_two_hints) owl_two_hints
   \<and> HINT_LETTER_MAX \<le> hint_letters_used owl_two_hints
   \<and> api_hint_letter env_up (world_with owl_two_hints) =
        Inr (Projection (public_state (owl_two_hints\<lparr>message := HintLimit\<rparr>)),
             (world_with owl_two_hints)
               \<lparr>session_game := Some (owl_two_hints\<lparr>message := HintLimit\<rparr>)\<rparr>)
   \<and> map_option hint_letters_used (session_game (run doomed_run)) = Some 2
   \<and> playing_in (world_with (round_on ''owl'' 8)) (round_on ''owl'' 8)
   \<and> hint_accepted env_down (round_on ''owl'' 8)
   \<and> choose_reveal env_down (round_on ''owl'' 8) = of_char CHR ''l''
   \<and> (\<exists>st' w'. api_hint_letter env_down (world_with (round_on ''owl'' 8))
                   = Inr (Projection (public_state st'), w')
         \<and> session_game w' = Some st' \<and> guessed st' = ascii ''l''
         \<and> hint_letters_used st' = 1 \<and> life st' = 6 \<and> word st' = ascii ''owl'')"
proof -
  let ?owl = "round_on ''owl'' 8"
  have pa: "playing_in (world_with owl_two_hints) owl_two_hints
      \<and> HINT_LETTER_MAX \<le> hint_letters_used owl_two_hints"
    by (simp add: concrete_defs owl_two_hints_def)
  have a: "api_hint_letter env_up (world_with owl_two_hints) =
        Inr (Projection (public_state (owl_two_hints\<lparr>message := HintLimit\<rparr>)),
             (world_with owl_two_hints)
               \<lparr>session_game := Some (owl_two_hints\<lparr>message := HintLimit\<rparr>)\<rparr>)"
    using hint_limit_and_effect [where w = "world_with owl_two_hints"
        and s = owl_two_hints and e = env_up and cs = doomed_run
        and st = "the (session_game (run doomed_run))"] pa
    by blast
  have d: "map_option hint_letters_used (session_game (run doomed_run)) = Some 2"
    by (simp add: doomed_run_def run_defs concrete_defs)
  have pc: "playing_in (world_with ?owl) ?owl \<and> hint_accepted env_down ?owl"
    by (simp add: concrete_defs)
  have vc: "choose_reveal env_down ?owl = of_char CHR ''l''"
    by (simp add: concrete_defs choose_reveal_def)
  have nc: "\<not> (0 < life ?owl - 2 \<and> word_cleared (hint_move ?owl (of_char CHR ''l'')))"
    by (simp add: concrete_defs hint_move_def word_cleared_def)
  have vals: "sorted_list (of_char CHR ''l'' # guessed ?owl) = ascii ''l''" "hint_letters_used ?owl + 1 = 1"
    "life ?owl - 2 = 6"
    by (simp_all add: concrete_defs)
  have c: "\<exists>st' w'. api_hint_letter env_down (world_with ?owl)
                   = Inr (Projection (public_state st'), w')
         \<and> session_game w' = Some st' \<and> guessed st' = ascii ''l''
         \<and> hint_letters_used st' = 1 \<and> life st' = 6 \<and> word st' = word ?owl"
    using hint_limit_and_effect [where w = "world_with ?owl" and s = ?owl
        and e = env_down and cs = doomed_run and st = "the (session_game (run doomed_run))"] pc nc
    unfolding vc vals by blast
  have w: "word ?owl = ascii ''owl''" by (simp add: round_on_def)
  from pa a d pc vc c show ?thesis unfolding w by blast
qed

section \<open>The two caches\<close>

lemma wiki_failure_cached:
  assumes "strip e wd \<noteq> []" and "wc (lower e (strip e wd)) = None" and "wiki_fetch e (strip e wd) = Raised"
  shows "wikipedia_summary e wc wd = (empty_info, wc(lower e (strip e wd) \<mapsto> empty_info))"
  using assms by (simp add: wikipedia_summary_def Let_def)

lemma wiki_hit:
  assumes "strip e wd \<noteq> []" and "wc (lower e (strip e wd)) = Some v"
  shows "wikipedia_summary e wc wd = (v, wc)"
  using assms by (simp add: wikipedia_summary_def Let_def)

lemma wiki_entries_stay:
  assumes "wc k = Some v"
  shows "snd (wikipedia_summary e wc wd) k = Some v"
  using assms
  by (auto simp: wikipedia_summary_def Let_def split: option.splits outcome.splits)

lemma mymemory_path_cache:
  "snd (mymemory_path e tc text key) =
     (if fst (mymemory_path e tc text key) \<noteq> []
      then tc(key \<mapsto> fst (mymemory_path e tc text key)) else tc)"
  by (simp add: mymemory_path_def Let_def split: outcome.splits)

lemma translate_cache_update:
  "snd (translate_to_th e tc t) =
     (if fst (translate_to_th e tc t) \<noteq> []
      then tc(lower e (strip e t) \<mapsto> fst (translate_to_th e tc t)) else tc)"
proof (cases "strip e t = []")
  case True
  then show ?thesis by (simp add: translate_to_th_def)
next
  case False
  show ?thesis
  proof (cases "tc (lower e (strip e t))")
    case (Some v)
    with False show ?thesis by (auto simp: translate_to_th_def Let_def map_upd_triv)
  next
    case None
    from mymemory_path_cache [of e tc "strip e t" "lower e (strip e t)"] None False
    show ?thesis
      by (simp add: translate_to_th_def Let_def split: outcome.splits)
  qed
qed

lemma translate_empty_keeps_cache:
  assumes "fst (translate_to_th e tc t) = []"
  shows "snd (translate_to_th e tc t) = tc"
  using assms translate_cache_update [where e = e and tc = tc and t = t] by simp

lemma translate_entries_stay:
  assumes "tc k = Some v"
  shows "snd (translate_to_th e tc t) k = Some v"
proof (cases "k = lower e (strip e t) \<and> strip e t \<noteq> []")
  case True
  with assms show ?thesis by (simp add: translate_to_th_def Let_def)
next
  case False
  with assms translate_cache_update [where e = e and tc = tc and t = t] show ?thesis
    by (auto simp: translate_to_th_def)
qed

lemma translate_miss_lib:
  assumes "strip e t \<noteq> []" and "tc (lower e (strip e t)) = None" and "HAS_TRANSLATE_LIB e"
    and "lib_translate e (strip e t) = Returned r"
  shows "translate_to_th e tc t =
           (strip e r, if strip e r \<noteq> [] then tc(lower e (strip e t) \<mapsto> strip e r) else tc)"
  using assms by (simp add: translate_to_th_def Let_def)

lemma translate_miss_mymemory:
  assumes "strip e t \<noteq> []" and "tc (lower e (strip e t)) = None"
    and "\<not> HAS_TRANSLATE_LIB e \<or> lib_translate e (strip e t) = Raised"
    and "mymemory_translate e (strip e t) = Returned r"
  shows "translate_to_th e tc t =
           (strip e r, if strip e r \<noteq> [] then tc(lower e (strip e t) \<mapsto> strip e r) else tc)"
  using assms by (auto simp: translate_to_th_def mymemory_path_def Let_def)

lemma translate_miss_fails:
  assumes "strip e t \<noteq> []" and "tc (lower e (strip e t)) = None"
    and "\<not> HAS_TRANSLATE_LIB e \<or> lib_translate e (strip e t) = Raised"
    and "mymemory_translate e (strip e t) = Raised"
  shows "translate_to_th e tc t = ([], tc)"
  using assms by (auto simp: translate_to_th_def mymemory_path_def Let_def)

lemma translate_hit:
  assumes "strip e t \<noteq> []" and "tc (lower e (strip e t)) = Some u"
  shows "translate_to_th e tc t = (u, tc)"
  using assms by (simp add: translate_to_th_def Let_def)

text \<open>
  C8. The summary cache keeps failures and the translation cache does not. A summary
  fetch that raises stores the all-empty record under the key; a key that is present
  is answered from the cache whatever the service would say now, and no call removes
  or changes an entry. A translation stores its result exactly when the result is
  not empty, so a call that returns the empty string (every service raised, or the
  answer was blank) leaves the cache as it was, and the next call for that key, still
  a miss, asks the services again; a key that is present is answered from the cache,
  and no call removes or changes an entry.
\<close>

theorem caches_differ_on_failure:
  "(strip e wd \<noteq> [] \<and> wc (lower e (strip e wd)) = None \<and> wiki_fetch e (strip e wd) = Raised \<longrightarrow>
      wikipedia_summary e wc wd = (empty_info, wc(lower e (strip e wd) \<mapsto> empty_info)))
   \<and> (strip e wd \<noteq> [] \<and> wc (lower e (strip e wd)) = Some v \<longrightarrow>
      wikipedia_summary e wc wd = (v, wc))
   \<and> (wc k = Some v \<longrightarrow> snd (wikipedia_summary e wc wd) k = Some v)
   \<and> snd (translate_to_th e tc t) =
       (if fst (translate_to_th e tc t) \<noteq> []
        then tc(lower e (strip e t) \<mapsto> fst (translate_to_th e tc t)) else tc)
   \<and> (fst (translate_to_th e tc t) = [] \<longrightarrow> snd (translate_to_th e tc t) = tc)
   \<and> (strip e t \<noteq> [] \<and> tc (lower e (strip e t)) = None
        \<and> (\<not> HAS_TRANSLATE_LIB e \<or> lib_translate e (strip e t) = Raised)
        \<and> mymemory_translate e (strip e t) = Raised \<longrightarrow>
      translate_to_th e tc t = ([], tc))
   \<and> (strip e t \<noteq> [] \<and> tc (lower e (strip e t)) = None
        \<and> HAS_TRANSLATE_LIB e \<and> lib_translate e (strip e t) = Returned r \<longrightarrow>
      translate_to_th e tc t =
        (strip e r, if strip e r \<noteq> [] then tc(lower e (strip e t) \<mapsto> strip e r) else tc))
   \<and> (strip e t \<noteq> [] \<and> tc (lower e (strip e t)) = None
        \<and> (\<not> HAS_TRANSLATE_LIB e \<or> lib_translate e (strip e t) = Raised)
        \<and> mymemory_translate e (strip e t) = Returned r \<longrightarrow>
      translate_to_th e tc t =
        (strip e r, if strip e r \<noteq> [] then tc(lower e (strip e t) \<mapsto> strip e r) else tc))
   \<and> (strip e t \<noteq> [] \<and> tc (lower e (strip e t)) = Some u \<longrightarrow> translate_to_th e tc t = (u, tc))
   \<and> (tc k = Some u \<longrightarrow> snd (translate_to_th e tc t) k = Some u)"
  using wiki_failure_cached [where wd = wd and wc = wc and e = e]
    wiki_hit [where wd = wd and wc = wc and v = v and e = e]
    wiki_entries_stay [where wc = wc and k = k and v = v and e = e and wd = wd]
    translate_cache_update [where e = e and tc = tc and t = t]
    translate_empty_keeps_cache [where e = e and tc = tc and t = t]
    translate_miss_fails [where t = t and tc = tc and e = e]
    translate_miss_lib [where t = t and tc = tc and e = e and r = r]
    translate_miss_mymemory [where t = t and tc = tc and e = e and r = r]
    translate_hit [where t = t and tc = tc and u = u and e = e]
    translate_entries_stay [where tc = tc and k = k and v = u and e = e and t = t]
  by blast

theorem caches_differ_on_failure_witness:
  "wikipedia_summary env_down Map.empty (ascii ''cat'')
     = (empty_info, [ascii ''cat'' \<mapsto> empty_info])
   \<and> wikipedia_summary env_up [ascii ''cat'' \<mapsto> empty_info] (ascii ''Cat '')
     = (empty_info, [ascii ''cat'' \<mapsto> empty_info])
   \<and> translate_to_th env_down Map.empty (ascii ''Cat'') = ([], Map.empty)
   \<and> translate_to_th env_up Map.empty (ascii ''Cat'')
     = (ascii ''th:Cat'', [ascii ''cat'' \<mapsto> ascii ''th:Cat''])
   \<and> translate_to_th env_down [ascii ''cat'' \<mapsto> ascii ''th:Cat''] (ascii ''CAT '')
     = (ascii ''th:Cat'', [ascii ''cat'' \<mapsto> ascii ''th:Cat''])
   \<and> snd (translate_to_th env_up [ascii ''cat'' \<mapsto> ascii ''th:Cat''] (ascii ''dog''))
         (ascii ''cat'')
     = Some (ascii ''th:Cat'')"
proof -
  have s: "strip env_down (ascii ''cat'') = ascii ''cat''"
    "strip env_up (ascii ''Cat '') = ascii ''Cat''"
    "strip env_down (ascii ''Cat'') = ascii ''Cat''"
    "strip env_up (ascii ''Cat'') = ascii ''Cat''"
    "strip env_down (ascii ''CAT '') = ascii ''CAT''"
    "lower env_down (ascii ''cat'') = ascii ''cat''"
    "lower env_down (ascii ''Cat'') = ascii ''cat''"
    "lower env_up (ascii ''Cat'') = ascii ''cat''"
    "lower env_down (ascii ''CAT'') = ascii ''cat''"
    "strip env_up (ascii ''th:Cat'') = ascii ''th:Cat''"
    by (simp_all add: env_down_def env_up_def ascii_def ascii_strip_def ascii_lower_def
        ascii_isspace_def)
  have n: "ascii ''cat'' \<noteq> []" "ascii ''Cat'' \<noteq> []" "ascii ''CAT'' \<noteq> []"
    "ascii ''th:Cat'' \<noteq> []"
    by (simp_all add: ascii_def)
  have e: "wiki_fetch env_down (ascii ''cat'') = Raised" "\<not> HAS_TRANSLATE_LIB env_down"
    "mymemory_translate env_down (ascii ''Cat'') = Raised" "HAS_TRANSLATE_LIB env_up"
    "lib_translate env_up (ascii ''Cat'') = Returned (ascii ''th:Cat'')"
    by (simp_all add: env_down_def env_up_def ascii_def)
  have k: "[ascii ''cat'' \<mapsto> ascii ''th:Cat''] (ascii ''cat'') = Some (ascii ''th:Cat'')"
    "[ascii ''cat'' \<mapsto> empty_info] (ascii ''cat'') = Some empty_info"
    by simp_all
  have "wikipedia_summary env_down Map.empty (ascii ''cat'')
      = (empty_info, [ascii ''cat'' \<mapsto> empty_info])"
    using caches_differ_on_failure [where wd = "ascii ''cat''" and wc = Map.empty
        and e = env_down and v = empty_info and k = "[]" and tc = Map.empty and t = "[]"
        and r = "[]" and u = "[]"] s n e
    by simp
  moreover
  have "wikipedia_summary env_up [ascii ''cat'' \<mapsto> empty_info] (ascii ''Cat '')
      = (empty_info, [ascii ''cat'' \<mapsto> empty_info])"
    using caches_differ_on_failure [where wd = "ascii ''Cat ''"
        and wc = "[ascii ''cat'' \<mapsto> empty_info]" and e = env_up and v = empty_info
        and k = "[]" and tc = Map.empty and t = "[]" and r = "[]" and u = "[]"] s n k
    by simp
  moreover
  have "translate_to_th env_down Map.empty (ascii ''Cat'') = ([], Map.empty)"
    using caches_differ_on_failure [where wd = "[]" and wc = Map.empty and e = env_down
        and v = empty_info and k = "[]" and tc = Map.empty and t = "ascii ''Cat''"
        and r = "[]" and u = "[]"] s n e
    by simp
  moreover
  have "translate_to_th env_up Map.empty (ascii ''Cat'')
      = (ascii ''th:Cat'', [ascii ''cat'' \<mapsto> ascii ''th:Cat''])"
    using caches_differ_on_failure [where wd = "[]" and wc = Map.empty and e = env_up
        and v = empty_info and k = "[]" and tc = Map.empty and t = "ascii ''Cat''"
        and r = "ascii ''th:Cat''" and u = "[]"] s n e
    by simp
  moreover
  have "translate_to_th env_down [ascii ''cat'' \<mapsto> ascii ''th:Cat''] (ascii ''CAT '')
      = (ascii ''th:Cat'', [ascii ''cat'' \<mapsto> ascii ''th:Cat''])"
    using caches_differ_on_failure [where wd = "[]" and wc = Map.empty and e = env_down
        and v = empty_info and k = "[]" and tc = "[ascii ''cat'' \<mapsto> ascii ''th:Cat'']"
        and t = "ascii ''CAT ''" and r = "[]" and u = "ascii ''th:Cat''"] s n k
    by simp
  moreover
  have "snd (translate_to_th env_up [ascii ''cat'' \<mapsto> ascii ''th:Cat''] (ascii ''dog''))
          (ascii ''cat'')
      = Some (ascii ''th:Cat'')"
    using caches_differ_on_failure [where wd = "[]" and wc = Map.empty and e = env_up
        and v = empty_info and k = "ascii ''cat''"
        and tc = "[ascii ''cat'' \<mapsto> ascii ''th:Cat'']" and t = "ascii ''dog''"
        and r = "[]" and u = "ascii ''th:Cat''"] k
    by blast
  ultimately show ?thesis by blast
qed
section \<open>The reveal and its fallbacks\<close>

lemma end_of_round_reveal:
  assumes "life m \<le> 0 \<or> word_cleared m" and "ANIMALS e \<noteq> []"
  shows "\<exists>st' w'. end_of_round e w m = Inr (Projection (public_state st'), w')
           \<and> session_game w' = Some st'
           \<and> last_en st' = word m
           \<and> last_th st' = reveal_th e (TRANSLATE_CACHE w) m
           \<and> last_about_en st' = reveal_about_en e m
           \<and> last_about_th st' = reveal_about_th e (TRANSLATE_CACHE w) m"
proof (cases "life m \<le> 0")
  case True
  from end_of_round_failed_fields [OF True, of e w] show ?thesis by blast
next
  case False
  with assms(1) have "0 < life m" "word_cleared m" by simp_all
  from end_of_round_cleared_fields [OF this assms(2), of w] show ?thesis by blast
qed

lemma reveal_th_nonempty: "reveal_th e tc s \<noteq> []"
  by (simp add: reveal_th_def Let_def ascii_def)

text \<open>
  C10. When a fresh valid guess or an accepted hint ends the round (life at most 0
  after the move, or every letter guessed), the saved round's \<open>last_th\<close> is never
  empty: it is the translation \<open>t\<close> of the word when that is not empty and \<open>-\<close>
  otherwise. Its \<open>last_about_th\<close> is \<open>-\<close> only when the about text is empty; when
  the about text is not empty it is the translation \<open>ta\<close> of it as it comes, so it is
  the empty string when that translation fails (as the witness shows on the word dog
  with every service down).
\<close>

theorem reveal_fallbacks:
  "playing_in w s \<and> ANIMALS e \<noteq> []
   \<and> ((fresh_guess e s i g \<and> m = guess_move s g \<and> r = api_guess e w (GuessStr i))
       \<or> (hint_accepted e s \<and> m = hint_move s (choose_reveal e s) \<and> r = api_hint_letter e w))
   \<and> (life m \<le> 0 \<or> word_cleared m)
   \<and> t = fst (translate_to_th e (TRANSLATE_CACHE w) (word s))
   \<and> ta = fst (translate_to_th e (snd (translate_to_th e (TRANSLATE_CACHE w) (word s)))
             (about_text e s))
   \<longrightarrow>
     (\<exists>st' w'. r = Inr (Projection (public_state st'), w')
        \<and> session_game w' = Some st'
        \<and> last_th st' \<noteq> []
        \<and> last_th st' = (if t \<noteq> [] then t else ascii ''-'')
        \<and> last_about_th st' = (if about_text e s \<noteq> [] then ta else ascii ''-''))"
proof (intro impI)
  assume a: "playing_in w s \<and> ANIMALS e \<noteq> []
   \<and> ((fresh_guess e s i g \<and> m = guess_move s g \<and> r = api_guess e w (GuessStr i))
       \<or> (hint_accepted e s \<and> m = hint_move s (choose_reveal e s) \<and> r = api_hint_letter e w))
   \<and> (life m \<le> 0 \<or> word_cleared m)
   \<and> t = fst (translate_to_th e (TRANSLATE_CACHE w) (word s))
   \<and> ta = fst (translate_to_th e (snd (translate_to_th e (TRANSLATE_CACHE w) (word s)))
             (about_text e s))"
  then have r: "r = end_of_round e w m"
    using api_guess_fresh [of w s e i g] api_hint_letter_accepted [of w s e] by blast
  from a have "m = guess_move s g \<or> m = hint_move s (choose_reveal e s)" by blast
  then have same: "reveal_th e (TRANSLATE_CACHE w) m = reveal_th e (TRANSLATE_CACHE w) s"
    "reveal_about_th e (TRANSLATE_CACHE w) m = reveal_about_th e (TRANSLATE_CACHE w) s"
    by (auto simp: reveal_of_moves)
  from a have v: "reveal_th e (TRANSLATE_CACHE w) m = (if t \<noteq> [] then t else ascii ''-'')"
    "reveal_about_th e (TRANSLATE_CACHE w) m = (if about_text e s \<noteq> [] then ta else ascii ''-'')"
    unfolding same by (simp_all add: reveal_th_def reveal_about_th_def Let_def)
  from a have "life m \<le> 0 \<or> word_cleared m" "ANIMALS e \<noteq> []" by simp_all
  from end_of_round_reveal [OF this, of w] obtain st' w' where
    "end_of_round e w m = Inr (Projection (public_state st'), w')" "session_game w' = Some st'"
    "last_th st' = reveal_th e (TRANSLATE_CACHE w) m"
    "last_about_th st' = reveal_about_th e (TRANSLATE_CACHE w) m"
    by blast
  with r v reveal_th_nonempty [of e "TRANSLATE_CACHE w" m]
  have "r = Inr (Projection (public_state st'), w')
        \<and> session_game w' = Some st'
        \<and> last_th st' \<noteq> []
        \<and> last_th st' = (if t \<noteq> [] then t else ascii ''-'')
        \<and> last_about_th st' = (if about_text e s \<noteq> [] then ta else ascii ''-'')"
    by simp
  then show "\<exists>st' w'. r = Inr (Projection (public_state st'), w')
        \<and> session_game w' = Some st'
        \<and> last_th st' \<noteq> []
        \<and> last_th st' = (if t \<noteq> [] then t else ascii ''-'')
        \<and> last_about_th st' = (if about_text e s \<noteq> [] then ta else ascii ''-'')"
    by blast
qed

theorem reveal_fallbacks_witness:
  "about_text env_down (round_on ''dog'' 1) = ascii ''animal''
   \<and> fst (translate_to_th env_down Map.empty (ascii ''animal'')) = []
   \<and> (\<exists>st' w'. api_guess env_down (world_with (round_on ''dog'' 1)) (GuessStr (ascii ''x''))
                   = Inr (Projection (public_state st'), w')
         \<and> session_game w' = Some st' \<and> last_th st' = ascii ''-'' \<and> last_about_th st' = [])
   \<and> (\<exists>st' w'. api_hint_letter env_up (world_with owl_with_ow)
                   = Inr (Projection (public_state st'), w')
         \<and> session_game w' = Some st' \<and> last_th st' = ascii ''th:owl''
         \<and> last_about_th st' = ascii ''th:animal'')"
proof -
  let ?dog = "round_on ''dog'' 1"
  have ab: "about_text env_down ?dog = ascii ''animal''"
    "about_text env_up owl_with_ow = ascii ''animal''"
    by (simp_all add: concrete_defs about_text_def owl_with_ow_def)
  have ne: "ascii ''animal'' \<noteq> []" "ascii ''th:owl'' \<noteq> []" "ascii ''th:animal'' \<noteq> []"
    by (simp_all add: ascii_def)
  have td: "fst (translate_to_th env_down (TRANSLATE_CACHE (world_with ?dog)) (word ?dog)) = []"
    "fst (translate_to_th env_down
           (snd (translate_to_th env_down (TRANSLATE_CACHE (world_with ?dog)) (word ?dog)))
           (ascii ''animal'')) = []"
    "fst (translate_to_th env_down Map.empty (ascii ''animal'')) = []"
    by (simp_all add: concrete_defs translate_to_th_def mymemory_path_def Let_def)
  have pd: "playing_in (world_with ?dog) ?dog \<and> ANIMALS env_down \<noteq> []
      \<and> fresh_guess env_down ?dog (ascii ''x'') (of_char CHR ''x'') \<and> life (guess_move ?dog (of_char CHR ''x'')) \<le> 0"
    by (simp add: concrete_defs guess_move_def)
  have d: "\<exists>st' w'. api_guess env_down (world_with ?dog) (GuessStr (ascii ''x''))
                   = Inr (Projection (public_state st'), w')
         \<and> session_game w' = Some st' \<and> last_th st' = ascii ''-'' \<and> last_about_th st' = []"
    using reveal_fallbacks [where w = "world_with ?dog" and s = ?dog and e = env_down
        and i = "ascii ''x''" and g = "of_char CHR ''x''"
        and m = "guess_move ?dog (of_char CHR ''x'')"
        and r = "api_guess env_down (world_with ?dog) (GuessStr (ascii ''x''))"
        and t = "[]" and ta = "[]"] pd td ne
    unfolding ab by auto
  have tu: "fst (translate_to_th env_up (TRANSLATE_CACHE (world_with owl_with_ow))
                  (word owl_with_ow)) = ascii ''th:owl''"
    "fst (translate_to_th env_up
           (snd (translate_to_th env_up (TRANSLATE_CACHE (world_with owl_with_ow))
                  (word owl_with_ow)))
           (ascii ''animal'')) = ascii ''th:animal''"
    by (simp_all add: concrete_defs owl_with_ow_def translate_to_th_def Let_def)
  have pu: "playing_in (world_with owl_with_ow) owl_with_ow \<and> ANIMALS env_up \<noteq> []
      \<and> hint_accepted env_up owl_with_ow
      \<and> word_cleared (hint_move owl_with_ow (choose_reveal env_up owl_with_ow))"
    by (simp add: concrete_defs owl_with_ow_def choose_reveal_def hint_move_def
        word_cleared_def)
  have u: "\<exists>st' w'. api_hint_letter env_up (world_with owl_with_ow)
                   = Inr (Projection (public_state st'), w')
         \<and> session_game w' = Some st' \<and> last_th st' = ascii ''th:owl''
         \<and> last_about_th st' = ascii ''th:animal''"
    using reveal_fallbacks [where w = "world_with owl_with_ow" and s = owl_with_ow
        and e = env_up and i = "[]" and g = "of_char CHR ''x''"
        and m = "hint_move owl_with_ow (choose_reveal env_up owl_with_ow)"
        and r = "api_hint_letter env_up (world_with owl_with_ow)"
        and t = "ascii ''th:owl''" and ta = "ascii ''th:animal''"] pu tu ne
    unfolding ab by auto
  from ab td d u show ?thesis by blast
qed

section \<open>What the projection shows of the word\<close>
















end
